theory Spec2Isabelle
  imports Complex_Main
begin

section \<open>Data model\<close>

text \<open>
  The bid core of the auction platform: the tables and request schemas
  (\<open>shared/schema.ts\<close>), the storage layer (\<open>server/storage.ts\<close>), the payment
  service (\<open>server/stripeService.ts\<close>) and the route handlers of the bid lifecycle.
  Strings are sequences of code units below 256. The decimal columns are
  \<open>numeric(10, 2)\<close>; their values are kept as integers counting hundredths, so
  \<open>215.00\<close> is \<open>21500\<close>. Timestamps are readings of the clock of the store, which stands still
  while one request is served. Requests are served one after the other.
\<close>

type_synonym decimal = int
type_synonym timestamp = nat

record bid =
  bid_id :: string
  customerId :: string
  lotNumber :: string
  maxBidAmount :: decimal
  serviceFee :: decimal
  depositAmount :: decimal
  totalPaid :: decimal
  status :: string
  stripePaymentIntentId :: "string option"
  stripeDepositRefundId :: "string option"
  stripeFeeRefundId :: "string option"
  isRefunded :: bool
  approvedBy :: "string option"
  approvedAt :: "timestamp option"
  rejectedBy :: "string option"
  rejectedAt :: "timestamp option"
  bid_notes :: "string option"
  createdAt :: timestamp
  updatedAt :: timestamp

record bid_history =
  hist_id :: string
  bidId :: string
  previousStatus :: "string option"
  newStatus :: string
  changedBy :: string
  hist_notes :: "string option"
  hist_createdAt :: timestamp

text \<open>The argument of \<open>createBidHistoryEntry\<close>: \<open>Omit<BidHistory, "id" | "createdAt">\<close>.\<close>

record new_history =
  nh_bidId :: string
  nh_previousStatus :: "string option"
  nh_newStatus :: string
  nh_changedBy :: string
  nh_notes :: "string option"

subsection \<open>The payment gateway\<close>

record payment_intent =
  pi_id :: string
  client_secret :: "string option"

record refund =
  refund_id :: string

text \<open>
  A request sent to the gateway. Amounts are in minor units. The metadata is the
  \<open>Record<string, string>\<close> of the source; the flag is
  \<open>automatic_payment_methods.enabled\<close>.
\<close>

datatype stripe_call =
    PaymentIntentsCreate int string "(string \<times> string) list" bool
  | PaymentIntentsRetrieve string
  | RefundsCreate string "int option"

text \<open>
  The third-party client. Each operation answers a request, given the requests sent
  before it, with the object of the gateway or with the message of the error it throws
  (\<open>Inl\<close>).
\<close>

record stripe_client =
  paymentIntents_create :: "stripe_call list \<Rightarrow> stripe_call \<Rightarrow> string + payment_intent"
  paymentIntents_retrieve :: "stripe_call list \<Rightarrow> stripe_call \<Rightarrow> string + payment_intent"
  refunds_create :: "stripe_call list \<Rightarrow> stripe_call \<Rightarrow> string + refund"

subsection \<open>The state the handlers run against\<close>

text \<open>
  The tables \<open>bids\<close> and \<open>bid_history\<close> as lists of rows; the identifiers the store
  generates (\<open>uuid w n\<close> is the \<open>n\<close>-th one); its clock; the gateway client, \<open>None\<close>
  when \<open>STRIPE_SECRET_KEY\<close> is not set; and the requests sent to the gateway so far.
\<close>

record world =
  bids :: "bid list"
  bidHistory :: "bid_history list"
  uuid :: "nat \<Rightarrow> string"
  nextId :: nat
  clock :: timestamp
  stripe :: "stripe_client option"
  stripeLog :: "stripe_call list"

section \<open>JavaScript values\<close>

text \<open>
  A field of a request body, which the handlers read untyped. \<open>JObject\<close> stands for
  objects and arrays; a number of a body is never \<open>NaN\<close>, so it is falsy when zero.
\<close>

datatype jsvalue = JUndefined | JNull | JBool bool | JNumber int | JString string | JObject

fun falsy :: "jsvalue \<Rightarrow> bool" where
  "falsy JUndefined = True"
| "falsy JNull = True"
| "falsy (JBool b) = (\<not> b)"
| "falsy (JNumber n) = (n = 0)"
| "falsy (JString s) = (s = [])"
| "falsy JObject = False"

text \<open>The white space and line terminators of the language among the code units below 256.\<close>

definition js_whitespace :: "char \<Rightarrow> bool" where
  "js_whitespace c = ((of_char c :: nat) \<in> {9, 10, 11, 12, 13, 32, 160})"

definition trim :: "string \<Rightarrow> string" where
  "trim s = rev (dropWhile js_whitespace (rev (dropWhile js_whitespace s)))"

text \<open>
  \<open>x || y\<close> on optional strings: \<open>undefined\<close>, \<open>null\<close> and the empty string are falsy.
  \<open>or_else x None\<close> is the value of \<open>x\<close> where a condition finds it truthy.
\<close>

definition or_else :: "string option \<Rightarrow> string option \<Rightarrow> string option" where
  "or_else x y = (case x of None \<Rightarrow> y | Some s \<Rightarrow> if s = [] then y else Some s)"

text \<open>
  \<open>Number(s)\<close> of a decimal column read as a string, as a number of major units.
\<close>

definition Number :: "decimal \<Rightarrow> rat" where
  "Number d = of_int d / 100"

section \<open>Storage layer\<close>

definition getBid :: "world \<Rightarrow> string \<Rightarrow> bid option" where
  "getBid w i = find (\<lambda>b. bid_id b = i) (bids w)"

text \<open>
  \<open>db.update(bids).set(...).where(eq(bids.id, bidId)).returning()\<close>: the rows with that
  id are rewritten; the first rewritten row, if any, is what the caller destructures.
\<close>

definition update_bids :: "(bid \<Rightarrow> bid) \<Rightarrow> string \<Rightarrow> world \<Rightarrow> bid option \<times> world" where
  "update_bids f i w =
     (case map f (filter (\<lambda>b. bid_id b = i) (bids w)) of
        [] \<Rightarrow> None
      | b # _ \<Rightarrow> Some b,
      w\<lparr>bids := map (\<lambda>b. if bid_id b = i then f b else b) (bids w)\<rparr>)"

definition createBidHistoryEntry :: "world \<Rightarrow> new_history \<Rightarrow> bid_history \<times> world" where
  "createBidHistoryEntry w entry =
     (let h = \<lparr>hist_id = uuid w (nextId w),
               bidId = nh_bidId entry,
               previousStatus = nh_previousStatus entry,
               newStatus = nh_newStatus entry,
               changedBy = nh_changedBy entry,
               hist_notes = nh_notes entry,
               hist_createdAt = clock w\<rparr>
      in (h, w\<lparr>bidHistory := bidHistory w @ [h], nextId := Suc (nextId w)\<rparr>))"

text \<open>Newest first; rows of equal time in the order the sort leaves them.\<close>

definition getBidHistory :: "world \<Rightarrow> string \<Rightarrow> bid_history list" where
  "getBidHistory w i = rev (sort_key hist_createdAt (filter (\<lambda>h. bidId h = i) (bidHistory w)))"

definition updateBidStatus ::
  "world \<Rightarrow> string \<Rightarrow> string \<Rightarrow> string \<Rightarrow> string option \<Rightarrow> bid option \<times> world" where
  "updateBidStatus w i st employeeId nts =
     (case getBid w i of
        None \<Rightarrow> (None, w)
      | Some currentBid \<Rightarrow>
          (let (updatedBid, w1) =
                 update_bids (\<lambda>b. b\<lparr>status := st,
                                     bid_notes := or_else nts (bid_notes currentBid),
                                     updatedAt := clock w\<rparr>) i w;
               (_, w2) =
                 createBidHistoryEntry w1
                   \<lparr>nh_bidId = i,
                    nh_previousStatus = Some (status currentBid),
                    nh_newStatus = st,
                    nh_changedBy = employeeId,
                    nh_notes = nts\<rparr>
           in (updatedBid, w2)))"

definition approveBid :: "world \<Rightarrow> string \<Rightarrow> string \<Rightarrow> bid option \<times> world" where
  "approveBid w i employeeId =
     (case getBid w i of
        None \<Rightarrow> (None, w)
      | Some currentBid \<Rightarrow>
          (let (approvedBid, w1) =
                 update_bids (\<lambda>b. b\<lparr>status := ''approved'',
                                     approvedBy := Some employeeId,
                                     approvedAt := Some (clock w),
                                     updatedAt := clock w\<rparr>) i w;
               (_, w2) =
                 createBidHistoryEntry w1
                   \<lparr>nh_bidId = i,
                    nh_previousStatus = Some (status currentBid),
                    nh_newStatus = ''approved'',
                    nh_changedBy = employeeId,
                    nh_notes = Some ''Bid approved by employee''\<rparr>
           in (approvedBid, w2)))"

definition rejectBid :: "world \<Rightarrow> string \<Rightarrow> string \<Rightarrow> string \<Rightarrow> bid option \<times> world" where
  "rejectBid w i employeeId nts =
     (case getBid w i of
        None \<Rightarrow> (None, w)
      | Some currentBid \<Rightarrow>
          (let (rejectedBid, w1) =
                 update_bids (\<lambda>b. b\<lparr>status := ''rejected'',
                                     rejectedBy := Some employeeId,
                                     rejectedAt := Some (clock w),
                                     bid_notes := Some nts,
                                     updatedAt := clock w\<rparr>) i w;
               (_, w2) =
                 createBidHistoryEntry w1
                   \<lparr>nh_bidId = i,
                    nh_previousStatus = Some (status currentBid),
                    nh_newStatus = ''rejected'',
                    nh_changedBy = employeeId,
                    nh_notes = Some nts\<rparr>
           in (rejectedBid, w2)))"

text \<open>
  The argument of \<open>updateBidPaymentInfo\<close>: each field may be left out, and the spread
  \<open>...paymentInfo\<close> then leaves the column as it is.
\<close>

record payment_info =
  info_stripePaymentIntentId :: "string option"
  info_stripeDepositRefundId :: "string option"
  info_stripeFeeRefundId :: "string option"
  info_isRefunded :: "bool option"

definition set_payment_info :: "payment_info \<Rightarrow> timestamp \<Rightarrow> bid \<Rightarrow> bid" where
  "set_payment_info paymentInfo t b =
     b\<lparr>stripePaymentIntentId :=
          (case info_stripePaymentIntentId paymentInfo of
             None \<Rightarrow> stripePaymentIntentId b | Some v \<Rightarrow> Some v),
       stripeDepositRefundId :=
          (case info_stripeDepositRefundId paymentInfo of
             None \<Rightarrow> stripeDepositRefundId b | Some v \<Rightarrow> Some v),
       stripeFeeRefundId :=
          (case info_stripeFeeRefundId paymentInfo of
             None \<Rightarrow> stripeFeeRefundId b | Some v \<Rightarrow> Some v),
       isRefunded :=
          (case info_isRefunded paymentInfo of None \<Rightarrow> isRefunded b | Some v \<Rightarrow> v),
       updatedAt := t\<rparr>"

definition updateBidPaymentInfo :: "world \<Rightarrow> string \<Rightarrow> payment_info \<Rightarrow> bid option \<times> world" where
  "updateBidPaymentInfo w i paymentInfo = update_bids (set_payment_info paymentInfo (clock w)) i w"

text \<open>
  \<open>db.delete(bids).where(eq(bids.id, bidId))\<close>. The statement removes the rows of
  \<open>bids\<close> with that id, and the store removes with them the history rows that refer to
  them: \<open>bidHistory.bidId\<close> is declared in \<open>shared/schema.ts\<close> as
  \<open>references(() => bids.id, { onDelete: "cascade" })\<close>.
\<close>

definition deleteBid :: "world \<Rightarrow> string \<Rightarrow> world" where
  "deleteBid w i =
     w\<lparr>bids := filter (\<lambda>b. bid_id b \<noteq> i) (bids w),
       bidHistory := filter (\<lambda>h. bidId h \<noteq> i) (bidHistory w)\<rparr>"

section \<open>Payment service\<close>

text \<open>
  Every operation returns the value of the source or the message of the error it throws
  (\<open>Inl\<close>), with the state after it. \<open>Math.round\<close> rounds half up, as \<open>round\<close> does.
\<close>

definition createPaymentIntent ::
  "world \<Rightarrow> rat \<Rightarrow> string \<Rightarrow> (string \<times> string) list \<Rightarrow> (string + payment_intent) \<times> world" where
  "createPaymentIntent w amount currency metadata =
     (case stripe w of
        None \<Rightarrow> (Inl ''Stripe not configured'', w)
      | Some client \<Rightarrow>
          (let call = PaymentIntentsCreate (round (amount * 100)) currency metadata True
           in (paymentIntents_create client (stripeLog w) call,
               w\<lparr>stripeLog := stripeLog w @ [call]\<rparr>)))"

definition createRefund :: "world \<Rightarrow> string \<Rightarrow> rat option \<Rightarrow> (string + refund) \<times> world" where
  "createRefund w paymentIntentId amount =
     (case stripe w of
        None \<Rightarrow> (Inl ''Stripe not configured'', w)
      | Some client \<Rightarrow>
          (let call = RefundsCreate paymentIntentId
                        (case amount of
                           None \<Rightarrow> None
                         | Some a \<Rightarrow> if a = 0 then None else Some (round (a * 100)))
           in (refunds_create client (stripeLog w) call,
               w\<lparr>stripeLog := stripeLog w @ [call]\<rparr>)))"

definition getPaymentIntent :: "world \<Rightarrow> string \<Rightarrow> (string + payment_intent) \<times> world" where
  "getPaymentIntent w paymentIntentId =
     (case stripe w of
        None \<Rightarrow> (Inl ''Stripe not configured'', w)
      | Some client \<Rightarrow>
          (let call = PaymentIntentsRetrieve paymentIntentId
           in (paymentIntents_retrieve client (stripeLog w) call,
               w\<lparr>stripeLog := stripeLog w @ [call]\<rparr>)))"

definition refundBidPayment :: "world \<Rightarrow> string \<Rightarrow> (string + refund) \<times> world" where
  "refundBidPayment w i =
     (case getBid w i of
        None \<Rightarrow> (Inl ''Bid not found'', w)
      | Some b \<Rightarrow>
          (case or_else (stripePaymentIntentId b) None of
             None \<Rightarrow> (Inl ''No payment found for this bid'', w)
           | Some paymentIntentId \<Rightarrow>
               if isRefunded b then (Inl ''This bid has already been refunded'', w)
               else
                 (case createRefund w paymentIntentId None of
                    (Inl e, w1) \<Rightarrow> (Inl e, w1)
                  | (Inr r, w1) \<Rightarrow>
                      (let (_, w2) =
                             updateBidPaymentInfo w1 i
                               \<lparr>info_stripePaymentIntentId = None,
                                info_stripeDepositRefundId = Some (refund_id r),
                                info_stripeFeeRefundId = Some (refund_id r),
                                info_isRefunded = Some True\<rparr>
                       in (Inr r, w2)))))"

section \<open>Route handlers\<close>

text \<open>
  The handlers as they run behind the authentication middleware: the identity of the
  caller is an argument. A handler returns the response and the state after it. The
  store answers every statement; what a handler catches is what the gateway, the
  payment service or the handler itself throws.
\<close>

datatype payload =
    Message string
  | Invalid string "string list"
  | BidJson "bid option"
  | ClientSecret "string option"
  | RefundJson string refund

datatype response = Response (statusCode: nat) (payload: payload)

subsection \<open>Request schemas\<close>

text \<open>
  \<open>updateBidStatusSchema\<close> of \<open>shared/schema.ts\<close>:
  \<open>z.object({ status: z.enum([...]), notes: z.string().optional() })\<close>. The body is
  the object of the request with its two fields, each any value or missing; other keys
  are dropped. The status has to be one of the seven strings of the enum, the notes a
  string or missing. Every field that fails is reported, in the order of the schema; an
  issue is kept as the path of its field.
\<close>

definition bidStatuses :: "string list" where
  "bidStatuses = [''pending'', ''approved'', ''rejected'', ''winning'', ''outbid'', ''won'', ''lost'']"

record status_body =
  body_status :: jsvalue
  body_notes :: jsvalue

record status_update =
  upd_status :: string
  upd_notes :: "string option"

fun status_issues :: "jsvalue \<Rightarrow> string list" where
  "status_issues (JString s) = (if s \<in> set bidStatuses then [] else [''status''])"
| "status_issues _ = [''status'']"

fun notes_issues :: "jsvalue \<Rightarrow> string list" where
  "notes_issues JUndefined = []"
| "notes_issues (JString n) = []"
| "notes_issues _ = [''notes'']"

definition updateBidStatusSchema :: "status_body \<Rightarrow> string list + status_update" where
  "updateBidStatusSchema body =
     (let issues = status_issues (body_status body) @ notes_issues (body_notes body)
      in if issues \<noteq> [] then Inl issues
         else Inr \<lparr>upd_status = (case body_status body of JString s \<Rightarrow> s | _ \<Rightarrow> []),
                   upd_notes = (case body_notes body of JString n \<Rightarrow> Some n | _ \<Rightarrow> None)\<rparr>)"

subsection \<open>Customer routes\<close>

text \<open>\<open>POST /api/customer/bids/:bidId/create-payment-intent\<close>.\<close>

definition create_payment_intent_route :: "world \<Rightarrow> string \<Rightarrow> string \<Rightarrow> response \<times> world" where
  "create_payment_intent_route w currentUser i =
     (case getBid w i of
        None \<Rightarrow> (Response 404 (Message ''Bid not found''), w)
      | Some b \<Rightarrow>
          if customerId b \<noteq> currentUser then (Response 403 (Message ''Forbidden''), w)
          else
            (case or_else (stripePaymentIntentId b) None of
               Some paymentIntentId \<Rightarrow>
                 (case getPaymentIntent w paymentIntentId of
                    (Inl e, w1) \<Rightarrow>
                      (Response 500 (Message ''Failed to create payment intent''), w1)
                  | (Inr existingIntent, w1) \<Rightarrow>
                      (Response 200 (ClientSecret (client_secret existingIntent)), w1))
             | None \<Rightarrow>
                 (case createPaymentIntent w (Number (totalPaid b)) ''usd''
                         [(''bidId'', bid_id b), (''customerId'', customerId b),
                          (''lotNumber'', lotNumber b)] of
                    (Inl e, w1) \<Rightarrow>
                      (Response 500 (Message ''Failed to create payment intent''), w1)
                  | (Inr paymentIntent, w1) \<Rightarrow>
                      (let (_, w2) =
                             updateBidPaymentInfo w1 i
                               \<lparr>info_stripePaymentIntentId = Some (pi_id paymentIntent),
                                info_stripeDepositRefundId = None,
                                info_stripeFeeRefundId = None,
                                info_isRefunded = None\<rparr>
                       in (Response 200 (ClientSecret (client_secret paymentIntent)), w2)))))"

subsection \<open>Employee routes\<close>

text \<open>\<open>POST /api/employee/bids/:bidId/refund\<close>.\<close>

definition refund_route :: "world \<Rightarrow> string \<Rightarrow> response \<times> world" where
  "refund_route w i =
     (case getBid w i of
        None \<Rightarrow> (Response 404 (Message ''Bid not found''), w)
      | Some b \<Rightarrow>
          if status b \<noteq> ''outbid'' \<and> status b \<noteq> ''lost'' then
            (Response 400 (Message ''Only outbid or lost bids can be refunded''), w)
          else if isRefunded b then
            (Response 400 (Message ''Bid has already been refunded''), w)
          else
            (case refundBidPayment w i of
               (Inl msg, w1) \<Rightarrow>
                 (Response 500 (Message (if msg = [] then ''Failed to process refund'' else msg)), w1)
             | (Inr r, w1) \<Rightarrow>
                 (Response 200 (RefundJson ''Refund processed successfully'' r), w1)))"

text \<open>\<open>POST /api/employee/bids/:bidId/approve\<close>.\<close>

definition approve_route :: "world \<Rightarrow> string \<Rightarrow> string \<Rightarrow> response \<times> world" where
  "approve_route w employeeId i =
     (case getBid w i of
        None \<Rightarrow> (Response 404 (Message ''Bid not found''), w)
      | Some b \<Rightarrow>
          if status b \<noteq> ''pending'' then
            (Response 400 (Message ''Only pending bids can be approved''), w)
          else
            (let (approvedBid, w1) = approveBid w i employeeId
             in (Response 200 (BidJson approvedBid), w1)))"

text \<open>
  \<open>POST /api/employee/bids/:bidId/reject\<close>. The notes are read from the body untyped:
  on a truthy value that is not a string, \<open>notes.trim()\<close> throws and the handler answers
  500.
\<close>

definition reject_route :: "world \<Rightarrow> string \<Rightarrow> string \<Rightarrow> jsvalue \<Rightarrow> response \<times> world" where
  "reject_route w employeeId i nts =
     (if falsy nts then (Response 400 (Message ''Rejection reason is required''), w)
      else
        (case nts of
           JString s \<Rightarrow>
             if trim s = [] then (Response 400 (Message ''Rejection reason is required''), w)
             else
               (case getBid w i of
                  None \<Rightarrow> (Response 404 (Message ''Bid not found''), w)
                | Some b \<Rightarrow>
                    if status b \<noteq> ''pending'' then
                      (Response 400 (Message ''Only pending bids can be rejected''), w)
                    else
                      (let (rejectedBid, w1) = rejectBid w i employeeId s
                       in (Response 200 (BidJson rejectedBid), w1)))
         | _ \<Rightarrow> (Response 500 (Message ''Failed to reject bid''), w)))"

text \<open>\<open>PATCH /api/employee/bids/:bidId/status\<close>, over the schema that validates the body.\<close>

definition status_route ::
  "('body \<Rightarrow> string list + status_update) \<Rightarrow> world \<Rightarrow> string \<Rightarrow> string \<Rightarrow> 'body \<Rightarrow>
     response \<times> world" where
  "status_route schema w employeeId i body =
     (case schema body of
        Inl errors \<Rightarrow> (Response 400 (Invalid ''Invalid status update data'' errors), w)
      | Inr validatedData \<Rightarrow>
          (case getBid w i of
             None \<Rightarrow> (Response 404 (Message ''Bid not found''), w)
           | Some b \<Rightarrow>
               (let (updatedBid, w1) =
                      updateBidStatus w i (upd_status validatedData) employeeId
                        (upd_notes validatedData)
                in (Response 200 (BidJson updatedBid), w1))))"

text \<open>\<open>DELETE /api/employee/bids/:bidId\<close>.\<close>

definition delete_route :: "world \<Rightarrow> string \<Rightarrow> response \<times> world" where
  "delete_route w i =
     (case getBid w i of
        None \<Rightarrow> (Response 404 (Message ''Bid not found''), w)
      | Some b \<Rightarrow>
          if status b \<noteq> ''won'' \<and> status b \<noteq> ''lost'' then
            (Response 400 (Message ''Only won or lost bids can be deleted''), w)
          else (Response 200 (Message ''Bid deleted successfully''), deleteBid w i))"

section \<open>Example states\<close>

text \<open>
  A bid on lot \<open>LOT-1\<close> with a maximum of 1000.00, in a given status, with a given
  payment intent and refunded flag; a gateway client that answers every request; and a
  store that holds one bid.
\<close>

definition example_bid :: "string \<Rightarrow> string option \<Rightarrow> bool \<Rightarrow> bid" where
  "example_bid st intent refunded =
     \<lparr>bid_id = ''bid-1'', customerId = ''cust-1'', lotNumber = ''LOT-1'',
      maxBidAmount = 100000, serviceFee = 21500, depositAmount = 10000, totalPaid = 31500,
      status = st, stripePaymentIntentId = intent, stripeDepositRefundId = None,
      stripeFeeRefundId = None, isRefunded = refunded, approvedBy = None, approvedAt = None,
      rejectedBy = None, rejectedAt = None, bid_notes = Some ''prior note'',
      createdAt = 1, updatedAt = 1\<rparr>"

definition example_client :: stripe_client where
  "example_client =
     \<lparr>paymentIntents_create = (\<lambda>log call. Inr \<lparr>pi_id = ''pi_1'', client_secret = Some ''secret_1''\<rparr>),
      paymentIntents_retrieve = (\<lambda>log call. Inr \<lparr>pi_id = ''pi_1'', client_secret = Some ''secret_1''\<rparr>),
      refunds_create = (\<lambda>log call. Inr \<lparr>refund_id = ''re_1''\<rparr>)\<rparr>"

definition example_world :: "bid list \<Rightarrow> stripe_client option \<Rightarrow> world" where
  "example_world rows client =
     \<lparr>bids = rows, bidHistory = [], uuid = (\<lambda>n. replicate n CHR ''x''), nextId = 2,
      clock = 5, stripe = client, stripeLog = []\<rparr>"

text \<open>A gateway client that refuses every request.\<close>

definition declining_client :: stripe_client where
  "declining_client =
     \<lparr>paymentIntents_create = (\<lambda>log call. Inl ''api_connection_error''),
      paymentIntents_retrieve = (\<lambda>log call. Inl ''api_connection_error''),
      refunds_create = (\<lambda>log call. Inl ''charge_already_refunded'')\<rparr>"

section \<open>The store under updates\<close>

lemma find_map_same_id:
  assumes "\<And>b. bid_id (f b) = bid_id b"
  shows "find (\<lambda>b. bid_id b = j) (map (\<lambda>b. if bid_id b = i then f b else b) xs) =
         (if j = i then map_option f (find (\<lambda>b. bid_id b = i) xs) else find (\<lambda>b. bid_id b = j) xs)"
  using assms by (induction xs) auto

lemma first_updated_row:
  "(case map f (filter P xs) of [] \<Rightarrow> None | b # _ \<Rightarrow> Some b) = map_option f (find P xs)"
  by (induction xs) auto

lemma update_bids_result:
  "fst (update_bids f i w) = map_option f (getBid w i)"
  by (simp add: update_bids_def getBid_def first_updated_row)

lemma update_bids_getBid:
  assumes "\<And>b. bid_id (f b) = bid_id b"
  shows "getBid (snd (update_bids f i w)) j = (if j = i then map_option f (getBid w i) else getBid w j)"
  using find_map_same_id [of f j i "bids w", OF assms]
  by (simp add: update_bids_def getBid_def)

lemma update_bids_frame:
  "bidHistory (snd (update_bids f i w)) = bidHistory w"
  "stripeLog (snd (update_bids f i w)) = stripeLog w"
  "stripe (snd (update_bids f i w)) = stripe w"
  "clock (snd (update_bids f i w)) = clock w"
  "nextId (snd (update_bids f i w)) = nextId w"
  "uuid (snd (update_bids f i w)) = uuid w"
  by (simp_all add: update_bids_def)

lemma createBidHistoryEntry_getBid:
  "getBid (snd (createBidHistoryEntry w e)) j = getBid w j"
  by (simp add: createBidHistoryEntry_def getBid_def Let_def)

lemma createBidHistoryEntry_rows:
  "bidHistory (snd (createBidHistoryEntry w e)) = bidHistory w @
     [\<lparr>hist_id = uuid w (nextId w), bidId = nh_bidId e,
       previousStatus = nh_previousStatus e, newStatus = nh_newStatus e,
       changedBy = nh_changedBy e, hist_notes = nh_notes e, hist_createdAt = clock w\<rparr>]"
  by (simp add: createBidHistoryEntry_def Let_def)

lemma approveBid_found:
  assumes "getBid w i = Some b"
  shows "fst (approveBid w i e) =
           Some (b\<lparr>status := ''approved'', approvedBy := Some e,
                   approvedAt := Some (clock w), updatedAt := clock w\<rparr>)"
    and "getBid (snd (approveBid w i e)) j =
           (if j = i then Some (b\<lparr>status := ''approved'', approvedBy := Some e,
                   approvedAt := Some (clock w), updatedAt := clock w\<rparr>) else getBid w j)"
    and "bidHistory (snd (approveBid w i e)) = bidHistory w @
           [\<lparr>hist_id = uuid w (nextId w), bidId = i, previousStatus = Some (status b),
             newStatus = ''approved'', changedBy = e,
             hist_notes = Some ''Bid approved by employee'', hist_createdAt = clock w\<rparr>]"
  using assms
  by (simp_all add: approveBid_def split_beta Let_def update_bids_result update_bids_getBid
      createBidHistoryEntry_getBid update_bids_frame createBidHistoryEntry_rows)

lemma rejectBid_found:
  assumes "getBid w i = Some b"
  shows "fst (rejectBid w i e s) =
           Some (b\<lparr>status := ''rejected'', rejectedBy := Some e,
                   rejectedAt := Some (clock w), bid_notes := Some s, updatedAt := clock w\<rparr>)"
    and "getBid (snd (rejectBid w i e s)) j =
           (if j = i then Some (b\<lparr>status := ''rejected'', rejectedBy := Some e,
                   rejectedAt := Some (clock w), bid_notes := Some s, updatedAt := clock w\<rparr>)
            else getBid w j)"
    and "bidHistory (snd (rejectBid w i e s)) = bidHistory w @
           [\<lparr>hist_id = uuid w (nextId w), bidId = i, previousStatus = Some (status b),
             newStatus = ''rejected'', changedBy = e,
             hist_notes = Some s, hist_createdAt = clock w\<rparr>]"
  using assms
  by (simp_all add: rejectBid_def split_beta Let_def update_bids_result update_bids_getBid
      createBidHistoryEntry_getBid update_bids_frame createBidHistoryEntry_rows)

lemma updateBidStatus_found:
  assumes "getBid w i = Some b"
  shows "fst (updateBidStatus w i st e n) =
           Some (b\<lparr>status := st, bid_notes := or_else n (bid_notes b), updatedAt := clock w\<rparr>)"
    and "getBid (snd (updateBidStatus w i st e n)) j =
           (if j = i then Some (b\<lparr>status := st, bid_notes := or_else n (bid_notes b),
                                   updatedAt := clock w\<rparr>)
            else getBid w j)"
    and "bidHistory (snd (updateBidStatus w i st e n)) = bidHistory w @
           [\<lparr>hist_id = uuid w (nextId w), bidId = i, previousStatus = Some (status b),
             newStatus = st, changedBy = e, hist_notes = n, hist_createdAt = clock w\<rparr>]"
  using assms
  by (simp_all add: updateBidStatus_def split_beta Let_def update_bids_result update_bids_getBid
      createBidHistoryEntry_getBid update_bids_frame createBidHistoryEntry_rows)

lemma storage_not_found:
  assumes "getBid w i = None"
  shows "updateBidStatus w i st e n = (None, w)"
    and "approveBid w i e = (None, w)"
    and "rejectBid w i e s = (None, w)"
  using assms by (simp_all add: updateBidStatus_def approveBid_def rejectBid_def)

lemma example_getBid:
  "getBid (example_world [example_bid st p r] c) ''bid-1'' = Some (example_bid st p r)"
  by (simp add: getBid_def example_world_def example_bid_def)

lemma example_fields:
  "status (example_bid st p r) = st"
  "isRefunded (example_bid st p r) = r"
  "stripePaymentIntentId (example_bid st p r) = p"
  "customerId (example_bid st p r) = ''cust-1''"
  "bid_notes (example_bid st p r) = Some ''prior note''"
  "totalPaid (example_bid st p r) = 31500"
  by (simp_all add: example_bid_def)

lemma example_world_fields:
  "bids (example_world rows c) = rows"
  "bidHistory (example_world rows c) = []"
  "clock (example_world rows c) = 5"
  "nextId (example_world rows c) = 2"
  "stripe (example_world rows c) = c"
  "stripeLog (example_world rows c) = []"
  by (simp_all add: example_world_def)

lemma example_getBid_none: "getBid (example_world [] c) i = None"
  by (simp add: getBid_def example_world_def)

lemma trim_blank: "trim s = [] \<longleftrightarrow> (\<forall>c\<in>set s. js_whitespace c)"
proof
  assume t: "trim s = []"
  show "\<forall>c\<in>set s. js_whitespace c"
  proof (rule ccontr)
    assume "\<not> (\<forall>c\<in>set s. js_whitespace c)"
    then have ne: "dropWhile js_whitespace s \<noteq> []" by simp
    then have "\<not> js_whitespace (hd (dropWhile js_whitespace s))" by (rule hd_dropWhile)
    moreover have "hd (dropWhile js_whitespace s) \<in> set (rev (dropWhile js_whitespace s))"
      using ne by simp
    ultimately have "dropWhile js_whitespace (rev (dropWhile js_whitespace s)) \<noteq> []"
      by (auto simp del: set_rev)
    then show False using t by (simp add: trim_def)
  qed
next
  assume "\<forall>c\<in>set s. js_whitespace c"
  then have d: "dropWhile js_whitespace s = []" by simp
  show "trim s = []" unfolding trim_def d by simp
qed

lemma reject_route_blank:
  assumes "\<forall>c\<in>set s. js_whitespace c"
  shows "reject_route w e i (JString s) = (Response 400 (Message ''Rejection reason is required''), w)"
  using assms trim_blank [of s] by (simp add: reject_route_def)

lemma reject_route_lookup:
  assumes "\<not> (\<forall>c\<in>set s. js_whitespace c)"
  shows "reject_route w e i (JString s) =
     (case getBid w i of
        None \<Rightarrow> (Response 404 (Message ''Bid not found''), w)
      | Some b \<Rightarrow>
          if status b \<noteq> ''pending'' then
            (Response 400 (Message ''Only pending bids can be rejected''), w)
          else (Response 200 (BidJson (fst (rejectBid w i e s))), snd (rejectBid w i e s)))"
proof -
  have "s \<noteq> []" using assms by auto
  moreover have "trim s \<noteq> []" using assms trim_blank [of s] by simp
  ultimately show ?thesis
    by (simp add: reject_route_def split_beta split: option.splits)
qed

lemma example_notes_blank:
  "list_all js_whitespace ''  ''"
  "\<not> list_all js_whitespace ''no funds''"
  by (simp_all add: js_whitespace_def)

lemma set_payment_info_id: "bid_id (set_payment_info p t b) = bid_id b"
  by (simp add: set_payment_info_def)

lemma updateBidPaymentInfo_getBid:
  "getBid (snd (updateBidPaymentInfo w i p)) j =
     (if j = i then map_option (set_payment_info p (clock w)) (getBid w i) else getBid w j)"
  by (simp add: updateBidPaymentInfo_def update_bids_getBid set_payment_info_id)

lemma updateBidPaymentInfo_frame:
  "bidHistory (snd (updateBidPaymentInfo w i p)) = bidHistory w"
  "stripeLog (snd (updateBidPaymentInfo w i p)) = stripeLog w"
  "stripe (snd (updateBidPaymentInfo w i p)) = stripe w"
  "clock (snd (updateBidPaymentInfo w i p)) = clock w"
  by (simp_all add: updateBidPaymentInfo_def update_bids_frame)

lemma createRefund_full:
  "stripe w = Some c \<Longrightarrow>
   createRefund w pid None =
     (refunds_create c (stripeLog w) (RefundsCreate pid None),
      w\<lparr>stripeLog := stripeLog w @ [RefundsCreate pid None]\<rparr>)"
  by (simp add: createRefund_def Let_def)

lemma createRefund_frame:
  "bids (snd (createRefund w pid a)) = bids w"
  "bidHistory (snd (createRefund w pid a)) = bidHistory w"
  "clock (snd (createRefund w pid a)) = clock w"
  "stripe (snd (createRefund w pid a)) = stripe w"
  by (simp_all add: createRefund_def Let_def split: option.splits)

lemma refundBidPayment_run:
  assumes "getBid w i = Some b" "stripePaymentIntentId b = Some pid" "pid \<noteq> []"
    "\<not> isRefunded b"
  shows "refundBidPayment w i =
     (case fst (createRefund w pid None) of
        Inl e \<Rightarrow> (Inl e, snd (createRefund w pid None))
      | Inr rf \<Rightarrow>
         (Inr rf,
          snd (updateBidPaymentInfo (snd (createRefund w pid None)) i
             \<lparr>info_stripePaymentIntentId = None,
              info_stripeDepositRefundId = Some (refund_id rf),
              info_stripeFeeRefundId = Some (refund_id rf),
              info_isRefunded = Some True\<rparr>)))"
proof -
  have t: "or_else (stripePaymentIntentId b) None = Some pid"
    using assms(2,3) by (simp add: or_else_def)
  show ?thesis
    unfolding refundBidPayment_def
    by (simp only: assms(1) t option.case assms(4) if_False prod.case_eq_if)
       (simp split: sum.splits add: split_beta)
qed

lemma refund_route_run:
  assumes "getBid w i = Some b" "status b = ''outbid'' \<or> status b = ''lost''" "\<not> isRefunded b"
  shows "refund_route w i =
     (case fst (refundBidPayment w i) of
        Inl msg \<Rightarrow>
          (Response 500 (Message (if msg = [] then ''Failed to process refund'' else msg)),
           snd (refundBidPayment w i))
      | Inr r \<Rightarrow>
          (Response 200 (RefundJson ''Refund processed successfully'' r),
           snd (refundBidPayment w i)))"
proof -
  have ok: "\<not> (status b \<noteq> ''outbid'' \<and> status b \<noteq> ''lost'')"
    using assms(2) by blast
  show ?thesis
    unfolding refund_route_def
    by (simp only: assms(1) option.case ok if_False assms(3) prod.case_eq_if)
qed

lemma set_payment_info_refund:
  "set_payment_info
     \<lparr>info_stripePaymentIntentId = None, info_stripeDepositRefundId = Some x,
      info_stripeFeeRefundId = Some x, info_isRefunded = Some True\<rparr> t b =
   b\<lparr>stripeDepositRefundId := Some x, stripeFeeRefundId := Some x, isRefunded := True,
     updatedAt := t\<rparr>"
  by (simp add: set_payment_info_def)

lemma refund_route_success:
  assumes g: "getBid w i = Some b"
    and s: "status b = ''outbid'' \<or> status b = ''lost''"
    and n: "\<not> isRefunded b"
    and p: "stripePaymentIntentId b = Some pid" "pid \<noteq> []"
    and c: "stripe w = Some c"
    and a: "refunds_create c (stripeLog w) (RefundsCreate pid None) = Inr rf"
  shows "fst (refund_route w i) = Response 200 (RefundJson ''Refund processed successfully'' rf)"
    and "stripeLog (snd (refund_route w i)) = stripeLog w @ [RefundsCreate pid None]"
    and "getBid (snd (refund_route w i)) i =
           Some (b\<lparr>stripeDepositRefundId := Some (refund_id rf),
                   stripeFeeRefundId := Some (refund_id rf), isRefunded := True,
                   updatedAt := clock w\<rparr>)"
    and "refund_route (snd (refund_route w i)) i =
           (Response 400 (Message ''Bid has already been refunded''), snd (refund_route w i))"
proof -
  let ?w1 = "w\<lparr>stripeLog := stripeLog w @ [RefundsCreate pid None]\<rparr>"
  let ?info = "\<lparr>info_stripePaymentIntentId = None,
              info_stripeDepositRefundId = Some (refund_id rf),
              info_stripeFeeRefundId = Some (refund_id rf),
              info_isRefunded = Some True\<rparr>"
  let ?w2 = "snd (updateBidPaymentInfo ?w1 i ?info)"
  let ?b' = "b\<lparr>stripeDepositRefundId := Some (refund_id rf),
                   stripeFeeRefundId := Some (refund_id rf), isRefunded := True,
                   updatedAt := clock w\<rparr>"
  have cr: "createRefund w pid None = (Inr rf, ?w1)"
    by (simp add: createRefund_full [OF c] a)
  have pay: "refundBidPayment w i = (Inr rf, ?w2)"
    by (simp add: refundBidPayment_run [OF g p n] cr)
  have run: "refund_route w i =
      (Response 200 (RefundJson ''Refund processed successfully'' rf), ?w2)"
    by (simp add: refund_route_run [OF g s n] pay)
  have g1: "getBid ?w1 i = Some b"
    using g by (simp add: getBid_def)
  have g2: "getBid ?w2 i = Some ?b'"
    by (simp add: updateBidPaymentInfo_getBid g1 set_payment_info_refund)
  have again: "refund_route ?w2 i =
      (Response 400 (Message ''Bid has already been refunded''), ?w2)"
    using s by (auto simp: refund_route_def g2)
  show "fst (refund_route w i) = Response 200 (RefundJson ''Refund processed successfully'' rf)"
    by (simp add: run)
  show "stripeLog (snd (refund_route w i)) = stripeLog w @ [RefundsCreate pid None]"
    by (simp add: run updateBidPaymentInfo_frame)
  show "getBid (snd (refund_route w i)) i = Some ?b'"
    using g2 by (simp add: run)
  show "refund_route (snd (refund_route w i)) i =
           (Response 400 (Message ''Bid has already been refunded''), snd (refund_route w i))"
    using again by (simp add: run)
qed

lemma refund_route_needs:
  assumes "statusCode (fst (refund_route w i)) = 200"
  shows "\<exists>b pid. getBid w i = Some b \<and> (status b = ''outbid'' \<or> status b = ''lost'') \<and>
           \<not> isRefunded b \<and> stripePaymentIntentId b = Some pid \<and> pid \<noteq> []"
proof (cases "getBid w i")
  case None
  then show ?thesis using assms by (simp add: refund_route_def)
next
  case (Some b)
  have s: "status b = ''outbid'' \<or> status b = ''lost''"
    using assms Some by (auto simp: refund_route_def split: if_splits)
  have n: "\<not> isRefunded b"
    using assms Some by (auto simp: refund_route_def split: if_splits)
  have "\<not> (stripePaymentIntentId b = None \<or> stripePaymentIntentId b = Some [])"
  proof
    assume "stripePaymentIntentId b = None \<or> stripePaymentIntentId b = Some []"
    then have "refundBidPayment w i = (Inl ''No payment found for this bid'', w)"
      using Some by (auto simp: refundBidPayment_def or_else_def)
    then show False
      using assms by (simp add: refund_route_run [OF Some s n])
  qed
  then obtain pid where "stripePaymentIntentId b = Some pid" "pid \<noteq> []"
    by (cases "stripePaymentIntentId b") auto
  then show ?thesis using Some s n by blast
qed

lemma minor_units: "round (Number d * 100) = d"
  by (simp add: Number_def)

lemma getPaymentIntent_run:
  "getPaymentIntent w pid =
     (case stripe w of
        None \<Rightarrow> (Inl ''Stripe not configured'', w)
      | Some c \<Rightarrow>
          (paymentIntents_retrieve c (stripeLog w) (PaymentIntentsRetrieve pid),
           w\<lparr>stripeLog := stripeLog w @ [PaymentIntentsRetrieve pid]\<rparr>))"
  by (simp add: getPaymentIntent_def Let_def split: option.splits)

lemma createPaymentIntent_run:
  "createPaymentIntent w (Number d) cur md =
     (case stripe w of
        None \<Rightarrow> (Inl ''Stripe not configured'', w)
      | Some c \<Rightarrow>
          (paymentIntents_create c (stripeLog w) (PaymentIntentsCreate d cur md True),
           w\<lparr>stripeLog := stripeLog w @ [PaymentIntentsCreate d cur md True]\<rparr>))"
  by (simp add: createPaymentIntent_def Let_def minor_units split: option.splits)

lemma set_payment_info_intent:
  "set_payment_info
     \<lparr>info_stripePaymentIntentId = Some x, info_stripeDepositRefundId = None,
      info_stripeFeeRefundId = None, info_isRefunded = None\<rparr> t b =
   b\<lparr>stripePaymentIntentId := Some x, updatedAt := t\<rparr>"
  by (simp add: set_payment_info_def)

lemma payment_intent_route_existing:
  assumes g: "getBid w i = Some b" and o: "customerId b = u"
    and p: "stripePaymentIntentId b = Some pid" "pid \<noteq> []"
  shows "create_payment_intent_route w u i =
     (case fst (getPaymentIntent w pid) of
        Inl e \<Rightarrow> Response 500 (Message ''Failed to create payment intent'')
      | Inr existingIntent \<Rightarrow> Response 200 (ClientSecret (client_secret existingIntent)),
      snd (getPaymentIntent w pid))"
proof -
  have t: "or_else (stripePaymentIntentId b) None = Some pid"
    using p by (simp add: or_else_def)
  have own: "\<not> customerId b \<noteq> u" using o by simp
  show ?thesis
    unfolding create_payment_intent_route_def
    by (simp only: g option.case own if_False t prod.case_eq_if)
       (simp split: sum.splits)
qed

lemma payment_intent_route_new:
  assumes g: "getBid w i = Some b" and o: "customerId b = u"
    and p: "stripePaymentIntentId b = None \<or> stripePaymentIntentId b = Some []"
    and c: "stripe w = Some c"
    and a: "paymentIntents_create c (stripeLog w)
              (PaymentIntentsCreate (totalPaid b) ''usd''
                 [(''bidId'', bid_id b), (''customerId'', customerId b),
                  (''lotNumber'', lotNumber b)] True) = Inr intent"
  shows "create_payment_intent_route w u i =
     (Response 200 (ClientSecret (client_secret intent)),
      snd (updateBidPaymentInfo
             (w\<lparr>stripeLog := stripeLog w @
                  [PaymentIntentsCreate (totalPaid b) ''usd''
                     [(''bidId'', bid_id b), (''customerId'', customerId b),
                      (''lotNumber'', lotNumber b)] True]\<rparr>) i
             \<lparr>info_stripePaymentIntentId = Some (pi_id intent),
              info_stripeDepositRefundId = None,
              info_stripeFeeRefundId = None,
              info_isRefunded = None\<rparr>))"
proof -
  have t: "or_else (stripePaymentIntentId b) None = None"
    using p by (auto simp: or_else_def)
  have own: "\<not> customerId b \<noteq> u" using o by simp
  have cp: "createPaymentIntent w (Number (totalPaid b)) ''usd''
              [(''bidId'', bid_id b), (''customerId'', customerId b), (''lotNumber'', lotNumber b)] =
            (Inr intent,
             w\<lparr>stripeLog := stripeLog w @
                  [PaymentIntentsCreate (totalPaid b) ''usd''
                     [(''bidId'', bid_id b), (''customerId'', customerId b),
                      (''lotNumber'', lotNumber b)] True]\<rparr>)"
    by (simp add: createPaymentIntent_run c a)
  show ?thesis
    unfolding create_payment_intent_route_def
    by (simp only: g option.case own if_False t cp prod.case sum.case)
       (simp add: split_beta)
qed

lemma example_bid_columns:
  "bid_id (example_bid st p r) = ''bid-1''"
  "lotNumber (example_bid st p r) = ''LOT-1''"
  by (simp_all add: example_bid_def)

lemma deleteBid_getBid: "getBid (deleteBid w i) i = None"
  by (simp add: getBid_def deleteBid_def find_None_iff)

lemma deleteBid_history: "filter (\<lambda>h. bidId h = i) (bidHistory (deleteBid w i)) = []"
  by (simp add: deleteBid_def filter_empty_conv)

lemma deleteBid_getBidHistory: "getBidHistory (deleteBid w i) i = []"
  by (simp add: getBidHistory_def deleteBid_history)

section \<open>History of status changes\<close>

text \<open>
  Claim C3. Every successful status-changing operation of the storage layer (the generic
  update, approve, reject: the call returns a bid) appends exactly one row to the bid
  history, for that bid, whose previous status is the status of the bid before the call
  and whose new status is the status of the bid after it.
\<close>

theorem status_change_records_history:
  "(updateBidStatus w i st e n = (Some b', w') \<longrightarrow>
      (\<exists>b h. getBid w i = Some b \<and> getBid w' i = Some b' \<and>
             bidHistory w' = bidHistory w @ [h] \<and> bidId h = i \<and>
             previousStatus h = Some (status b) \<and> newStatus h = status b')) \<and>
   (approveBid w i e = (Some b', w') \<longrightarrow>
      (\<exists>b h. getBid w i = Some b \<and> getBid w' i = Some b' \<and>
             bidHistory w' = bidHistory w @ [h] \<and> bidId h = i \<and>
             previousStatus h = Some (status b) \<and> newStatus h = status b')) \<and>
   (rejectBid w i e s = (Some b', w') \<longrightarrow>
      (\<exists>b h. getBid w i = Some b \<and> getBid w' i = Some b' \<and>
             bidHistory w' = bidHistory w @ [h] \<and> bidId h = i \<and>
             previousStatus h = Some (status b) \<and> newStatus h = status b'))"
proof (cases "getBid w i")
  case None
  then show ?thesis by (simp add: storage_not_found)
next
  case (Some b)
  have "updateBidStatus w i st e n = (Some b', w') \<Longrightarrow>
      getBid w' i = Some b' \<and>
      bidHistory w' = bidHistory w @
           [\<lparr>hist_id = uuid w (nextId w), bidId = i, previousStatus = Some (status b),
             newStatus = st, changedBy = e, hist_notes = n, hist_createdAt = clock w\<rparr>] \<and>
      status b' = st"
    by (auto simp: prod_eq_iff updateBidStatus_found [OF Some])
  moreover have "approveBid w i e = (Some b', w') \<Longrightarrow>
      getBid w' i = Some b' \<and>
      bidHistory w' = bidHistory w @
           [\<lparr>hist_id = uuid w (nextId w), bidId = i, previousStatus = Some (status b),
             newStatus = ''approved'', changedBy = e,
             hist_notes = Some ''Bid approved by employee'', hist_createdAt = clock w\<rparr>] \<and>
      status b' = ''approved''"
    by (auto simp: prod_eq_iff approveBid_found [OF Some])
  moreover have "rejectBid w i e s = (Some b', w') \<Longrightarrow>
      getBid w' i = Some b' \<and>
      bidHistory w' = bidHistory w @
           [\<lparr>hist_id = uuid w (nextId w), bidId = i, previousStatus = Some (status b),
             newStatus = ''rejected'', changedBy = e,
             hist_notes = Some s, hist_createdAt = clock w\<rparr>] \<and>
      status b' = ''rejected''"
    by (auto simp: prod_eq_iff rejectBid_found [OF Some])
  ultimately show ?thesis using Some by auto
qed

theorem status_change_records_history_witness:
  "(let w = example_world [example_bid ''approved'' None False] None;
        r = updateBidStatus w ''bid-1'' ''won'' ''emp-1'' None;
        b' = (example_bid ''approved'' None False)\<lparr>status := ''won'', updatedAt := 5\<rparr>
    in r = (Some b', snd r) \<and>
       (\<exists>b h. getBid w ''bid-1'' = Some b \<and> getBid (snd r) ''bid-1'' = Some b' \<and>
              bidHistory (snd r) = bidHistory w @ [h] \<and> bidId h = ''bid-1'' \<and>
              previousStatus h = Some (status b) \<and> newStatus h = status b')) \<and>
   (let w = example_world [example_bid ''pending'' None False] None;
        r = approveBid w ''bid-1'' ''emp-1'';
        b' = (example_bid ''pending'' None False)\<lparr>status := ''approved'',
               approvedBy := Some ''emp-1'', approvedAt := Some 5, updatedAt := 5\<rparr>
    in r = (Some b', snd r) \<and>
       (\<exists>b h. getBid w ''bid-1'' = Some b \<and> getBid (snd r) ''bid-1'' = Some b' \<and>
              bidHistory (snd r) = bidHistory w @ [h] \<and> bidId h = ''bid-1'' \<and>
              previousStatus h = Some (status b) \<and> newStatus h = status b')) \<and>
   (let w = example_world [example_bid ''pending'' None False] None;
        r = rejectBid w ''bid-1'' ''emp-1'' ''no funds'';
        b' = (example_bid ''pending'' None False)\<lparr>status := ''rejected'',
               rejectedBy := Some ''emp-1'', rejectedAt := Some 5,
               bid_notes := Some ''no funds'', updatedAt := 5\<rparr>
    in r = (Some b', snd r) \<and>
       (\<exists>b h. getBid w ''bid-1'' = Some b \<and> getBid (snd r) ''bid-1'' = Some b' \<and>
              bidHistory (snd r) = bidHistory w @ [h] \<and> bidId h = ''bid-1'' \<and>
              previousStatus h = Some (status b) \<and> newStatus h = status b'))"
proof -
  let ?w1 = "example_world [example_bid ''approved'' None False] None"
  let ?w2 = "example_world [example_bid ''pending'' None False] None"
  let ?u = "(example_bid ''approved'' None False)\<lparr>status := ''won'', updatedAt := 5\<rparr>"
  let ?a = "(example_bid ''pending'' None False)\<lparr>status := ''approved'',
               approvedBy := Some ''emp-1'', approvedAt := Some 5, updatedAt := 5\<rparr>"
  let ?r = "(example_bid ''pending'' None False)\<lparr>status := ''rejected'',
               rejectedBy := Some ''emp-1'', rejectedAt := Some 5,
               bid_notes := Some ''no funds'', updatedAt := 5\<rparr>"
  have clk: "clock ?w1 = 5" "clock ?w2 = 5"
    by (simp_all add: example_world_def)
  have nts: "bid_notes (example_bid ''approved'' None False) = Some ''prior note''"
    by (simp add: example_bid_def)
  have r1: "updateBidStatus ?w1 ''bid-1'' ''won'' ''emp-1'' None =
      (Some ?u, snd (updateBidStatus ?w1 ''bid-1'' ''won'' ''emp-1'' None))"
    by (simp add: prod_eq_iff updateBidStatus_found(1) [OF example_getBid] or_else_def clk nts)
  have r2: "approveBid ?w2 ''bid-1'' ''emp-1'' = (Some ?a, snd (approveBid ?w2 ''bid-1'' ''emp-1''))"
    by (simp add: prod_eq_iff approveBid_found(1) [OF example_getBid] clk)
  have r3: "rejectBid ?w2 ''bid-1'' ''emp-1'' ''no funds'' =
      (Some ?r, snd (rejectBid ?w2 ''bid-1'' ''emp-1'' ''no funds''))"
    by (simp add: prod_eq_iff rejectBid_found(1) [OF example_getBid] clk)
  show ?thesis
    unfolding Let_def
    using r1 r2 r3
      status_change_records_history [of ?w1 "''bid-1''" "''won''" "''emp-1''" None ?u
        "snd (updateBidStatus ?w1 ''bid-1'' ''won'' ''emp-1'' None)"]
      status_change_records_history [of ?w2 "''bid-1''" _ "''emp-1''" _ ?a
        "snd (approveBid ?w2 ''bid-1'' ''emp-1'')"]
      status_change_records_history [of ?w2 "''bid-1''" _ "''emp-1''" _ ?r
        "snd (rejectBid ?w2 ''bid-1'' ''emp-1'' ''no funds'')" "''no funds''"]
    by blast
qed

section \<open>Approve and reject\<close>

text \<open>
  Claim C4. Approve succeeds only on a bid whose status is \<open>pending\<close>: an unknown bid
  is answered 404 and a bid in any other status 400, ``Only pending bids can be
  approved''. On a pending bid the answer is 200 with the bid, now \<open>approved\<close>, with the
  approver and the approval time set; one history row with the note ``Bid approved by
  employee'' is recorded; and a second approve of the same bid is answered 400 with
  that message.
\<close>

theorem approve_route_only_pending:
  "(getBid w i = None \<longrightarrow>
      approve_route w e i = (Response 404 (Message ''Bid not found''), w)) \<and>
   (getBid w i = Some b \<and> status b \<noteq> ''pending'' \<longrightarrow>
      approve_route w e i = (Response 400 (Message ''Only pending bids can be approved''), w)) \<and>
   (getBid w i = Some b \<and> status b = ''pending'' \<longrightarrow>
      (let b' = b\<lparr>status := ''approved'', approvedBy := Some e,
                   approvedAt := Some (clock w), updatedAt := clock w\<rparr>;
           w' = snd (approve_route w e i)
       in fst (approve_route w e i) = Response 200 (BidJson (Some b')) \<and>
          getBid w' i = Some b' \<and>
          bidHistory w' = bidHistory w @
            [\<lparr>hist_id = uuid w (nextId w), bidId = i, previousStatus = Some ''pending'',
              newStatus = ''approved'', changedBy = e,
              hist_notes = Some ''Bid approved by employee'', hist_createdAt = clock w\<rparr>] \<and>
          approve_route w' e2 i =
            (Response 400 (Message ''Only pending bids can be approved''), w')))"
proof (intro conjI impI)
  assume "getBid w i = None"
  then show "approve_route w e i = (Response 404 (Message ''Bid not found''), w)"
    by (simp add: approve_route_def)
next
  assume "getBid w i = Some b \<and> status b \<noteq> ''pending''"
  then show "approve_route w e i = (Response 400 (Message ''Only pending bids can be approved''), w)"
    by (simp add: approve_route_def)
next
  assume a: "getBid w i = Some b \<and> status b = ''pending''"
  then have g: "getBid w i = Some b" and p: "status b = ''pending''" by simp_all
  let ?b' = "b\<lparr>status := ''approved'', approvedBy := Some e,
                   approvedAt := Some (clock w), updatedAt := clock w\<rparr>"
  have run: "approve_route w e i = (Response 200 (BidJson (fst (approveBid w i e))), snd (approveBid w i e))"
    using g p by (simp add: approve_route_def split_beta)
  have after: "getBid (snd (approveBid w i e)) i = Some ?b'"
    by (simp add: approveBid_found(2) [OF g])
  have again: "approve_route (snd (approveBid w i e)) e2 i =
      (Response 400 (Message ''Only pending bids can be approved''), snd (approveBid w i e))"
    by (simp add: approve_route_def after)
  show "let b' = ?b'; w' = snd (approve_route w e i)
       in fst (approve_route w e i) = Response 200 (BidJson (Some b')) \<and>
          getBid w' i = Some b' \<and>
          bidHistory w' = bidHistory w @
            [\<lparr>hist_id = uuid w (nextId w), bidId = i, previousStatus = Some ''pending'',
              newStatus = ''approved'', changedBy = e,
              hist_notes = Some ''Bid approved by employee'', hist_createdAt = clock w\<rparr>] \<and>
          approve_route w' e2 i =
            (Response 400 (Message ''Only pending bids can be approved''), w')"
    unfolding Let_def run fst_conv snd_conv
    using after again approveBid_found(1,3) [OF g, of e] p by simp
qed

theorem approve_route_only_pending_witness:
  "(getBid (example_world [] None) ''bid-1'' = None \<and>
    approve_route (example_world [] None) ''emp-1'' ''bid-1'' =
      (Response 404 (Message ''Bid not found''), example_world [] None)) \<and>
   (getBid (example_world [example_bid ''won'' None False] None) ''bid-1'' =
      Some (example_bid ''won'' None False) \<and>
    status (example_bid ''won'' None False) \<noteq> ''pending'' \<and>
    approve_route (example_world [example_bid ''won'' None False] None) ''emp-1'' ''bid-1'' =
      (Response 400 (Message ''Only pending bids can be approved''),
       example_world [example_bid ''won'' None False] None)) \<and>
   (getBid (example_world [example_bid ''pending'' None False] None) ''bid-1'' =
      Some (example_bid ''pending'' None False) \<and>
    status (example_bid ''pending'' None False) = ''pending'' \<and>
    (let w = example_world [example_bid ''pending'' None False] None;
         b' = (example_bid ''pending'' None False)\<lparr>status := ''approved'',
                approvedBy := Some ''emp-1'', approvedAt := Some 5, updatedAt := 5\<rparr>;
         w' = snd (approve_route w ''emp-1'' ''bid-1'')
     in fst (approve_route w ''emp-1'' ''bid-1'') = Response 200 (BidJson (Some b')) \<and>
        getBid w' ''bid-1'' = Some b' \<and>
        bidHistory w' =
          [\<lparr>hist_id = ''xx'', bidId = ''bid-1'', previousStatus = Some ''pending'',
            newStatus = ''approved'', changedBy = ''emp-1'',
            hist_notes = Some ''Bid approved by employee'', hist_createdAt = 5\<rparr>] \<and>
        approve_route w' ''emp-2'' ''bid-1'' =
          (Response 400 (Message ''Only pending bids can be approved''), w')))"
proof -
  have u: "uuid (example_world rows c) 2 = ''xx''" for rows c
    by (simp add: example_world_def numeral_2_eq_2)
  show ?thesis
    using
      approve_route_only_pending [of "example_world [] None" "''bid-1''" "''emp-1''"]
      approve_route_only_pending [of "example_world [example_bid ''won'' None False] None"
        "''bid-1''" "''emp-1''" "example_bid ''won'' None False"]
      approve_route_only_pending [of "example_world [example_bid ''pending'' None False] None"
        "''bid-1''" "''emp-1''" "example_bid ''pending'' None False" "''emp-2''"]
    by (simp add: example_getBid example_getBid_none example_fields example_world_fields u Let_def)
qed

text \<open>
  Claim C5. Reject answers 400, ``Rejection reason is required'', whenever the notes are
  empty or consist of white space only, and when they are missing, whatever the status
  of the bid and even when there is no such bid: the check comes before the lookup.
  With other notes an unknown bid is answered 404, a bid that is not \<open>pending\<close> 400,
  and a pending bid is rejected: rejecter, rejection time and notes are set, the status
  is \<open>rejected\<close> and one history row is recorded.
\<close>

theorem reject_route_requires_notes:
  "((\<forall>c\<in>set s. js_whitespace c) \<longrightarrow>
      reject_route w e i (JString s) =
        (Response 400 (Message ''Rejection reason is required''), w)) \<and>
   reject_route w e i JUndefined = (Response 400 (Message ''Rejection reason is required''), w) \<and>
   (\<not> (\<forall>c\<in>set s. js_whitespace c) \<and> getBid w i = None \<longrightarrow>
      reject_route w e i (JString s) = (Response 404 (Message ''Bid not found''), w)) \<and>
   (\<not> (\<forall>c\<in>set s. js_whitespace c) \<and> getBid w i = Some b \<and> status b \<noteq> ''pending'' \<longrightarrow>
      reject_route w e i (JString s) =
        (Response 400 (Message ''Only pending bids can be rejected''), w)) \<and>
   (\<not> (\<forall>c\<in>set s. js_whitespace c) \<and> getBid w i = Some b \<and> status b = ''pending'' \<longrightarrow>
      (let b' = b\<lparr>status := ''rejected'', rejectedBy := Some e,
                   rejectedAt := Some (clock w), bid_notes := Some s, updatedAt := clock w\<rparr>;
           r = reject_route w e i (JString s)
       in fst r = Response 200 (BidJson (Some b')) \<and>
          getBid (snd r) i = Some b' \<and>
          bidHistory (snd r) = bidHistory w @
            [\<lparr>hist_id = uuid w (nextId w), bidId = i, previousStatus = Some ''pending'',
              newStatus = ''rejected'', changedBy = e,
              hist_notes = Some s, hist_createdAt = clock w\<rparr>]))"
proof (intro conjI impI)
  assume "\<forall>c\<in>set s. js_whitespace c"
  then show "reject_route w e i (JString s) =
        (Response 400 (Message ''Rejection reason is required''), w)"
    by (rule reject_route_blank)
next
  show "reject_route w e i JUndefined = (Response 400 (Message ''Rejection reason is required''), w)"
    by (simp add: reject_route_def)
next
  assume "\<not> (\<forall>c\<in>set s. js_whitespace c) \<and> getBid w i = None"
  then show "reject_route w e i (JString s) = (Response 404 (Message ''Bid not found''), w)"
    by (simp add: reject_route_lookup)
next
  assume "\<not> (\<forall>c\<in>set s. js_whitespace c) \<and> getBid w i = Some b \<and> status b \<noteq> ''pending''"
  then show "reject_route w e i (JString s) =
        (Response 400 (Message ''Only pending bids can be rejected''), w)"
    by (simp add: reject_route_lookup)
next
  assume a: "\<not> (\<forall>c\<in>set s. js_whitespace c) \<and> getBid w i = Some b \<and> status b = ''pending''"
  then have g: "getBid w i = Some b" and p: "status b = ''pending''" by simp_all
  have run: "reject_route w e i (JString s) =
      (Response 200 (BidJson (fst (rejectBid w i e s))), snd (rejectBid w i e s))"
    using a by (simp add: reject_route_lookup)
  show "let b' = b\<lparr>status := ''rejected'', rejectedBy := Some e,
                   rejectedAt := Some (clock w), bid_notes := Some s, updatedAt := clock w\<rparr>;
           r = reject_route w e i (JString s)
       in fst r = Response 200 (BidJson (Some b')) \<and>
          getBid (snd r) i = Some b' \<and>
          bidHistory (snd r) = bidHistory w @
            [\<lparr>hist_id = uuid w (nextId w), bidId = i, previousStatus = Some ''pending'',
              newStatus = ''rejected'', changedBy = e,
              hist_notes = Some s, hist_createdAt = clock w\<rparr>]"
    unfolding Let_def run fst_conv snd_conv
    using rejectBid_found [OF g, of e s] p by simp
qed

theorem reject_route_requires_notes_witness:
  "(list_all js_whitespace ''  '' \<and>
    reject_route (example_world [example_bid ''won'' None False] None) ''emp-1'' ''bid-1''
        (JString ''  '') =
      (Response 400 (Message ''Rejection reason is required''),
       example_world [example_bid ''won'' None False] None)) \<and>
   (\<not> list_all js_whitespace ''no funds'' \<and>
    getBid (example_world [] None) ''bid-1'' = None \<and>
    reject_route (example_world [] None) ''emp-1'' ''bid-1'' (JString ''no funds'') =
      (Response 404 (Message ''Bid not found''), example_world [] None)) \<and>
   (getBid (example_world [example_bid ''won'' None False] None) ''bid-1'' =
      Some (example_bid ''won'' None False) \<and>
    status (example_bid ''won'' None False) \<noteq> ''pending'' \<and>
    reject_route (example_world [example_bid ''won'' None False] None) ''emp-1'' ''bid-1''
        (JString ''no funds'') =
      (Response 400 (Message ''Only pending bids can be rejected''),
       example_world [example_bid ''won'' None False] None)) \<and>
   (getBid (example_world [example_bid ''pending'' None False] None) ''bid-1'' =
      Some (example_bid ''pending'' None False) \<and>
    status (example_bid ''pending'' None False) = ''pending'' \<and>
    (let w = example_world [example_bid ''pending'' None False] None;
         b' = (example_bid ''pending'' None False)\<lparr>status := ''rejected'',
                rejectedBy := Some ''emp-1'', rejectedAt := Some 5,
                bid_notes := Some ''no funds'', updatedAt := 5\<rparr>;
         r = reject_route w ''emp-1'' ''bid-1'' (JString ''no funds'')
     in fst r = Response 200 (BidJson (Some b')) \<and>
        getBid (snd r) ''bid-1'' = Some b' \<and>
        bidHistory (snd r) =
          [\<lparr>hist_id = ''xx'', bidId = ''bid-1'', previousStatus = Some ''pending'',
            newStatus = ''rejected'', changedBy = ''emp-1'',
            hist_notes = Some ''no funds'', hist_createdAt = 5\<rparr>]))"
proof -
  have u: "uuid (example_world rows c) 2 = ''xx''" for rows c
    by (simp add: example_world_def numeral_2_eq_2)
  have blank: "\<forall>c\<in>set ''  ''. js_whitespace c"
    using example_notes_blank(1) by (simp add: list_all_iff)
  have nonblank: "\<not> (\<forall>c\<in>set ''no funds''. js_whitespace c)"
    using example_notes_blank(2) unfolding list_all_iff .
  show ?thesis
    using blank nonblank example_notes_blank
      reject_route_requires_notes [of "''  ''" "example_world [example_bid ''won'' None False] None"
        "''emp-1''" "''bid-1''"]
      reject_route_requires_notes [of "''no funds''" "example_world [] None" "''emp-1''" "''bid-1''"]
      reject_route_requires_notes [of "''no funds''"
        "example_world [example_bid ''won'' None False] None" "''emp-1''" "''bid-1''"
        "example_bid ''won'' None False"]
      reject_route_requires_notes [of "''no funds''"
        "example_world [example_bid ''pending'' None False] None" "''emp-1''" "''bid-1''"
        "example_bid ''pending'' None False"]
    by (simp add: example_getBid example_getBid_none example_fields example_world_fields u Let_def
        del: list.set)
qed

section \<open>The generic status update\<close>

text \<open>
  Claim C6. For every existing bid and every target status of the enum the generic
  status update succeeds whatever the current status of the bid, and appends a history
  row with the previous status, the new status and the acting employee; a target
  outside the enum is refused with 400, with an issue for the status and one for the
  notes when they are not a string either.
\<close>

theorem status_route_any_transition:
  "(st \<in> set bidStatuses \<and> getBid w i = Some b \<longrightarrow>
      (let body = \<lparr>body_status = JString st,
                   body_notes = (case n of None \<Rightarrow> JUndefined | Some x \<Rightarrow> JString x)\<rparr>;
           r = status_route updateBidStatusSchema w e i body
       in \<exists>b'. fst r = Response 200 (BidJson (Some b')) \<and>
               getBid (snd r) i = Some b' \<and> status b' = st \<and>
               bidHistory (snd r) = bidHistory w @
                 [\<lparr>hist_id = uuid w (nextId w), bidId = i, previousStatus = Some (status b),
                   newStatus = st, changedBy = e, hist_notes = n,
                   hist_createdAt = clock w\<rparr>])) \<and>
   (st \<notin> set bidStatuses \<longrightarrow>
      status_route updateBidStatusSchema w e i \<lparr>body_status = JString st, body_notes = nv\<rparr> =
        (Response 400 (Invalid ''Invalid status update data'' (''status'' # notes_issues nv)), w))"
proof (intro conjI impI)
  assume a: "st \<in> set bidStatuses \<and> getBid w i = Some b"
  then have g: "getBid w i = Some b" and m: "st \<in> set bidStatuses" by simp_all
  let ?body = "\<lparr>body_status = JString st,
                   body_notes = (case n of None \<Rightarrow> JUndefined | Some x \<Rightarrow> JString x)\<rparr>"
  have parse: "updateBidStatusSchema ?body = Inr \<lparr>upd_status = st, upd_notes = n\<rparr>"
    using m by (cases n) (simp_all add: updateBidStatusSchema_def)
  have run: "status_route updateBidStatusSchema w e i ?body =
      (Response 200 (BidJson (fst (updateBidStatus w i st e n))), snd (updateBidStatus w i st e n))"
    by (simp add: status_route_def parse g split_beta)
  show "let body = ?body; r = status_route updateBidStatusSchema w e i body
       in \<exists>b'. fst r = Response 200 (BidJson (Some b')) \<and>
               getBid (snd r) i = Some b' \<and> status b' = st \<and>
               bidHistory (snd r) = bidHistory w @
                 [\<lparr>hist_id = uuid w (nextId w), bidId = i, previousStatus = Some (status b),
                   newStatus = st, changedBy = e, hist_notes = n,
                   hist_createdAt = clock w\<rparr>]"
    unfolding Let_def run fst_conv snd_conv
    using updateBidStatus_found [OF g, of st e n] by simp
next
  assume "st \<notin> set bidStatuses"
  then have "updateBidStatusSchema \<lparr>body_status = JString st, body_notes = nv\<rparr> =
      Inl (''status'' # notes_issues nv)"
    by (simp add: updateBidStatusSchema_def)
  then show "status_route updateBidStatusSchema w e i \<lparr>body_status = JString st, body_notes = nv\<rparr> =
        (Response 400 (Invalid ''Invalid status update data'' (''status'' # notes_issues nv)), w)"
    by (simp add: status_route_def)
qed

theorem status_route_any_transition_witness:
  "(''won'' \<in> set bidStatuses \<and>
    getBid (example_world [example_bid ''pending'' None False] None) ''bid-1'' =
      Some (example_bid ''pending'' None False) \<and>
    (let w = example_world [example_bid ''pending'' None False] None;
         r = status_route updateBidStatusSchema w ''emp-1'' ''bid-1''
               \<lparr>body_status = JString ''won'', body_notes = JUndefined\<rparr>
     in \<exists>b'. fst r = Response 200 (BidJson (Some b')) \<and>
             getBid (snd r) ''bid-1'' = Some b' \<and> status b' = ''won'' \<and>
             bidHistory (snd r) =
               [\<lparr>hist_id = ''xx'', bidId = ''bid-1'', previousStatus = Some ''pending'',
                 newStatus = ''won'', changedBy = ''emp-1'', hist_notes = None,
                 hist_createdAt = 5\<rparr>])) \<and>
   (''sold'' \<notin> set bidStatuses \<and>
    status_route updateBidStatusSchema (example_world [example_bid ''pending'' None False] None)
        ''emp-1'' ''bid-1'' \<lparr>body_status = JString ''sold'', body_notes = JUndefined\<rparr> =
      (Response 400 (Invalid ''Invalid status update data'' [''status'']),
       example_world [example_bid ''pending'' None False] None) \<and>
    status_route updateBidStatusSchema (example_world [example_bid ''pending'' None False] None)
        ''emp-1'' ''bid-1'' \<lparr>body_status = JString ''sold'', body_notes = JNumber 5\<rparr> =
      (Response 400 (Invalid ''Invalid status update data'' [''status'', ''notes'']),
       example_world [example_bid ''pending'' None False] None))"
proof -
  let ?w = "example_world [example_bid ''pending'' None False] None"
  have u: "uuid (example_world rows c) 2 = ''xx''" for rows c
    by (simp add: example_world_def numeral_2_eq_2)
  have m: "''won'' \<in> set bidStatuses" "''sold'' \<notin> set bidStatuses"
    by (simp_all add: bidStatuses_def)
  have updated: "\<exists>b'. fst (status_route updateBidStatusSchema ?w ''emp-1'' ''bid-1''
               \<lparr>body_status = JString ''won'', body_notes = JUndefined\<rparr>) =
               Response 200 (BidJson (Some b')) \<and>
             getBid (snd (status_route updateBidStatusSchema ?w ''emp-1'' ''bid-1''
               \<lparr>body_status = JString ''won'', body_notes = JUndefined\<rparr>)) ''bid-1'' = Some b' \<and>
             status b' = ''won'' \<and>
             bidHistory (snd (status_route updateBidStatusSchema ?w ''emp-1'' ''bid-1''
               \<lparr>body_status = JString ''won'', body_notes = JUndefined\<rparr>)) =
               [\<lparr>hist_id = ''xx'', bidId = ''bid-1'', previousStatus = Some ''pending'',
                 newStatus = ''won'', changedBy = ''emp-1'', hist_notes = None,
                 hist_createdAt = 5\<rparr>]"
    using m(1)
      status_route_any_transition [where st = "''won''" and i = "''bid-1''" and e = "''emp-1''"
        and w = ?w and b = "example_bid ''pending'' None False" and n = None]
    by (simp add: example_getBid example_fields example_world_fields u Let_def)
  have refused: "status_route updateBidStatusSchema ?w ''emp-1'' ''bid-1''
        \<lparr>body_status = JString ''sold'', body_notes = JUndefined\<rparr> =
      (Response 400 (Invalid ''Invalid status update data'' [''status'']), ?w)"
    using m(2)
      status_route_any_transition [where st = "''sold''" and i = "''bid-1''" and e = "''emp-1''"
        and w = ?w and nv = JUndefined]
    by simp
  have both: "status_route updateBidStatusSchema ?w ''emp-1'' ''bid-1''
        \<lparr>body_status = JString ''sold'', body_notes = JNumber 5\<rparr> =
      (Response 400 (Invalid ''Invalid status update data'' [''status'', ''notes'']), ?w)"
    using m(2)
      status_route_any_transition [where st = "''sold''" and i = "''bid-1''" and e = "''emp-1''"
        and w = ?w and nv = "JNumber 5"]
    by simp
  show ?thesis
    unfolding Let_def using m updated refused both
    by (simp add: example_getBid)
qed

text \<open>
  Notes that are supplied but empty do not overwrite: the update treats the empty string
  as no notes, and the prior notes of the bid stay.
\<close>

theorem updateBidStatus_empty_notes_counterexample:
  "map_option bid_notes
     (fst (updateBidStatus (example_world [example_bid ''approved'' None False] None)
             ''bid-1'' ''outbid'' ''emp-1'' (Some ''''))) = Some (Some ''prior note'') \<and>
   map_option bid_notes
     (fst (updateBidStatus (example_world [example_bid ''approved'' None False] None)
             ''bid-1'' ''outbid'' ''emp-1'' (Some ''''))) \<noteq> Some (Some '''')"
  by (simp add: updateBidStatus_found(1) [OF example_getBid] or_else_def example_fields)

text \<open>
  Claim C9, as amended. A generic status update overwrites the notes of the bid exactly
  when non-empty notes are supplied; when the notes are left out or empty the prior
  notes stay. No field of the bid other than status, notes and update time changes.
\<close>

theorem updateBidStatus_keeps_notes_on_empty:
  "getBid w i = Some b \<Longrightarrow>
   (let r = updateBidStatus w i st e n
    in \<exists>b'. fst r = Some b' \<and> getBid (snd r) i = Some b' \<and>
            bid_notes b' = (if n = None \<or> n = Some [] then bid_notes b else n) \<and>
            b' = b\<lparr>status := st, bid_notes := bid_notes b', updatedAt := clock w\<rparr>)"
proof -
  assume g: "getBid w i = Some b"
  have o: "or_else n (bid_notes b) = (if n = None \<or> n = Some [] then bid_notes b else n)"
    by (cases n) (simp_all add: or_else_def)
  show ?thesis
    unfolding Let_def
    using updateBidStatus_found(1,2) [OF g, of st e n] o by simp
qed

theorem updateBidStatus_keeps_notes_on_empty_witness:
  "getBid (example_world [example_bid ''approved'' None False] None) ''bid-1'' =
     Some (example_bid ''approved'' None False) \<and>
   (let w = example_world [example_bid ''approved'' None False] None;
        r = updateBidStatus w ''bid-1'' ''outbid'' ''emp-1'' (Some ''outbid at 1200'')
    in \<exists>b'. fst r = Some b' \<and> getBid (snd r) ''bid-1'' = Some b' \<and>
            bid_notes b' = Some ''outbid at 1200'' \<and>
            b' = (example_bid ''approved'' None False)\<lparr>status := ''outbid'',
                   bid_notes := bid_notes b', updatedAt := 5\<rparr>)"
  using updateBidStatus_keeps_notes_on_empty [where w = "example_world [example_bid ''approved'' None False] None"
      and i = "''bid-1''" and b = "example_bid ''approved'' None False" and st = "''outbid''"
      and e = "''emp-1''" and n = "Some ''outbid at 1200''"]
  by (simp add: example_getBid example_world_fields Let_def)

section \<open>Refunds\<close>

text \<open>
  Claim C10. The bid is marked refunded only after the refund call of the gateway has
  succeeded: when \<open>createRefund\<close> throws, the payment service and the refund handler
  fail with its error (the handler with 500) and the stored bid, with its refunded flag
  and both refund ids, is exactly as it was before the call.
\<close>

theorem refund_failure_leaves_bid:
  "getBid w i = Some b \<Longrightarrow> stripePaymentIntentId b = Some pid \<Longrightarrow> pid \<noteq> [] \<Longrightarrow>
   \<not> isRefunded b \<Longrightarrow> fst (createRefund w pid None) = Inl e \<Longrightarrow>
   fst (refundBidPayment w i) = Inl e \<and>
   bids (snd (refundBidPayment w i)) = bids w \<and>
   getBid (snd (refundBidPayment w i)) i = Some b \<and>
   (status b = ''outbid'' \<or> status b = ''lost'' \<longrightarrow>
      fst (refund_route w i) =
        Response 500 (Message (if e = [] then ''Failed to process refund'' else e)) \<and>
      bids (snd (refund_route w i)) = bids w \<and>
      getBid (snd (refund_route w i)) i = Some b)"
proof -
  assume g: "getBid w i = Some b" and p: "stripePaymentIntentId b = Some pid" "pid \<noteq> []"
    and n: "\<not> isRefunded b" and f: "fst (createRefund w pid None) = Inl e"
  have run: "refundBidPayment w i = (Inl e, snd (createRefund w pid None))"
    by (simp add: refundBidPayment_run [OF g p n] f)
  have same: "bids (snd (createRefund w pid None)) = bids w"
    by (rule createRefund_frame)
  then have found: "getBid (snd (createRefund w pid None)) i = Some b"
    using g by (simp add: getBid_def)
  have route: "refund_route w i =
        (Response 500 (Message (if e = [] then ''Failed to process refund'' else e)),
         snd (createRefund w pid None))"
    if "status b = ''outbid'' \<or> status b = ''lost''"
    by (simp add: refund_route_run [OF g that n] run)
  show ?thesis
    by (simp add: run same found route)
qed

theorem refund_failure_leaves_bid_witness:
  "getBid (example_world [example_bid ''lost'' (Some ''pi_1'') False] (Some declining_client)) ''bid-1'' =
     Some (example_bid ''lost'' (Some ''pi_1'') False) \<and>
   stripePaymentIntentId (example_bid ''lost'' (Some ''pi_1'') False) = Some ''pi_1'' \<and>
   ''pi_1'' \<noteq> [] \<and>
   \<not> isRefunded (example_bid ''lost'' (Some ''pi_1'') False) \<and>
   (let w = example_world [example_bid ''lost'' (Some ''pi_1'') False] (Some declining_client)
    in fst (createRefund w ''pi_1'' None) = Inl ''charge_already_refunded'' \<and>
       fst (refundBidPayment w ''bid-1'') = Inl ''charge_already_refunded'' \<and>
       bids (snd (refundBidPayment w ''bid-1'')) = bids w \<and>
       getBid (snd (refundBidPayment w ''bid-1'')) ''bid-1'' =
         Some (example_bid ''lost'' (Some ''pi_1'') False) \<and>
       fst (refund_route w ''bid-1'') = Response 500 (Message ''charge_already_refunded'') \<and>
       bids (snd (refund_route w ''bid-1'')) = bids w \<and>
       getBid (snd (refund_route w ''bid-1'')) ''bid-1'' =
         Some (example_bid ''lost'' (Some ''pi_1'') False))"
proof -
  let ?w = "example_world [example_bid ''lost'' (Some ''pi_1'') False] (Some declining_client)"
  have st: "stripe ?w = Some declining_client"
    by (simp add: example_world_fields)
  have f: "fst (createRefund ?w ''pi_1'' None) = Inl ''charge_already_refunded''"
    by (subst createRefund_full [OF st]) (simp add: declining_client_def)
  show ?thesis
    using f refund_failure_leaves_bid [of ?w "''bid-1''" "example_bid ''lost'' (Some ''pi_1'') False"
        "''pi_1''" "''charge_already_refunded''"]
    by (simp add: example_getBid example_fields Let_def)
qed

text \<open>
  Claim C1. The refund handler succeeds only when the bid exists, its status is
  \<open>outbid\<close> or \<open>lost\<close>, it is not yet refunded and a payment-intent id (a string
  that is not empty) is stored; otherwise it fails with the error of the case: 404 for
  an unknown bid, 400 for another status, 400 for a refunded bid, 500 with ``No payment
  found for this bid'' without a stored id. On success one refund request, with no amount and so for the full charge,
  has been sent to the gateway, the refunded flag is set and both refund ids are the id
  of that refund; a second refund of the same bid is then answered 400, ``Bid has
  already been refunded''.
\<close>

theorem refund_route_guarded:
  "(statusCode (fst (refund_route w i)) = 200 \<longrightarrow>
      (\<exists>b pid. getBid w i = Some b \<and> (status b = ''outbid'' \<or> status b = ''lost'') \<and>
         \<not> isRefunded b \<and> stripePaymentIntentId b = Some pid \<and> pid \<noteq> [])) \<and>
   (getBid w i = None \<longrightarrow>
      refund_route w i = (Response 404 (Message ''Bid not found''), w)) \<and>
   (getBid w i = Some b \<and> status b \<noteq> ''outbid'' \<and> status b \<noteq> ''lost'' \<longrightarrow>
      refund_route w i =
        (Response 400 (Message ''Only outbid or lost bids can be refunded''), w)) \<and>
   (getBid w i = Some b \<and> (status b = ''outbid'' \<or> status b = ''lost'') \<and> isRefunded b \<longrightarrow>
      refund_route w i = (Response 400 (Message ''Bid has already been refunded''), w)) \<and>
   (getBid w i = Some b \<and> (status b = ''outbid'' \<or> status b = ''lost'') \<and> \<not> isRefunded b \<and>
    (stripePaymentIntentId b = None \<or> stripePaymentIntentId b = Some []) \<longrightarrow>
      refund_route w i = (Response 500 (Message ''No payment found for this bid''), w)) \<and>
   (getBid w i = Some b \<and> (status b = ''outbid'' \<or> status b = ''lost'') \<and> \<not> isRefunded b \<and>
    stripePaymentIntentId b = Some pid \<and> pid \<noteq> [] \<and> stripe w = Some c \<and>
    refunds_create c (stripeLog w) (RefundsCreate pid None) = Inr rf \<longrightarrow>
      (let r = refund_route w i
       in fst r = Response 200 (RefundJson ''Refund processed successfully'' rf) \<and>
          stripeLog (snd r) = stripeLog w @ [RefundsCreate pid None] \<and>
          getBid (snd r) i =
            Some (b\<lparr>stripeDepositRefundId := Some (refund_id rf),
                    stripeFeeRefundId := Some (refund_id rf), isRefunded := True,
                    updatedAt := clock w\<rparr>) \<and>
          refund_route (snd r) i =
            (Response 400 (Message ''Bid has already been refunded''), snd r)))"
proof (intro conjI impI)
  assume "statusCode (fst (refund_route w i)) = 200"
  then show "\<exists>b pid. getBid w i = Some b \<and> (status b = ''outbid'' \<or> status b = ''lost'') \<and>
         \<not> isRefunded b \<and> stripePaymentIntentId b = Some pid \<and> pid \<noteq> []"
    by (rule refund_route_needs)
next
  assume "getBid w i = None"
  then show "refund_route w i = (Response 404 (Message ''Bid not found''), w)"
    by (simp add: refund_route_def)
next
  assume "getBid w i = Some b \<and> status b \<noteq> ''outbid'' \<and> status b \<noteq> ''lost''"
  then show "refund_route w i =
        (Response 400 (Message ''Only outbid or lost bids can be refunded''), w)"
    by (simp add: refund_route_def)
next
  assume "getBid w i = Some b \<and> (status b = ''outbid'' \<or> status b = ''lost'') \<and> isRefunded b"
  then show "refund_route w i = (Response 400 (Message ''Bid has already been refunded''), w)"
    by (auto simp: refund_route_def)
next
  assume a: "getBid w i = Some b \<and> (status b = ''outbid'' \<or> status b = ''lost'') \<and> \<not> isRefunded b \<and>
    (stripePaymentIntentId b = None \<or> stripePaymentIntentId b = Some [])"
  then have "refundBidPayment w i = (Inl ''No payment found for this bid'', w)"
    by (auto simp: refundBidPayment_def or_else_def)
  moreover have "getBid w i = Some b" "status b = ''outbid'' \<or> status b = ''lost''" "\<not> isRefunded b"
    using a by simp_all
  ultimately show "refund_route w i = (Response 500 (Message ''No payment found for this bid''), w)"
    by (simp add: refund_route_run)
next
  assume a: "getBid w i = Some b \<and> (status b = ''outbid'' \<or> status b = ''lost'') \<and> \<not> isRefunded b \<and>
    stripePaymentIntentId b = Some pid \<and> pid \<noteq> [] \<and> stripe w = Some c \<and>
    refunds_create c (stripeLog w) (RefundsCreate pid None) = Inr rf"
  then have h: "getBid w i = Some b" "status b = ''outbid'' \<or> status b = ''lost''" "\<not> isRefunded b"
    "stripePaymentIntentId b = Some pid" "pid \<noteq> []" "stripe w = Some c"
    "refunds_create c (stripeLog w) (RefundsCreate pid None) = Inr rf"
    by simp_all
  show "let r = refund_route w i
       in fst r = Response 200 (RefundJson ''Refund processed successfully'' rf) \<and>
          stripeLog (snd r) = stripeLog w @ [RefundsCreate pid None] \<and>
          getBid (snd r) i =
            Some (b\<lparr>stripeDepositRefundId := Some (refund_id rf),
                    stripeFeeRefundId := Some (refund_id rf), isRefunded := True,
                    updatedAt := clock w\<rparr>) \<and>
          refund_route (snd r) i =
            (Response 400 (Message ''Bid has already been refunded''), snd r)"
    unfolding Let_def using refund_route_success [OF h] by blast
qed

theorem refund_route_guarded_witness:
  "(let w = example_world [example_bid ''lost'' (Some ''pi_1'') False] (Some example_client);
        b = example_bid ''lost'' (Some ''pi_1'') False;
        r = refund_route w ''bid-1''
    in statusCode (fst r) = 200 \<and>
       getBid w ''bid-1'' = Some b \<and> (status b = ''outbid'' \<or> status b = ''lost'') \<and>
       \<not> isRefunded b \<and> stripePaymentIntentId b = Some ''pi_1'' \<and> ''pi_1'' \<noteq> [] \<and>
       stripe w = Some example_client \<and>
       refunds_create example_client (stripeLog w) (RefundsCreate ''pi_1'' None) =
         Inr \<lparr>refund_id = ''re_1''\<rparr> \<and>
       fst r = Response 200 (RefundJson ''Refund processed successfully'' \<lparr>refund_id = ''re_1''\<rparr>) \<and>
       stripeLog (snd r) = [RefundsCreate ''pi_1'' None] \<and>
       getBid (snd r) ''bid-1'' =
         Some (b\<lparr>stripeDepositRefundId := Some ''re_1'', stripeFeeRefundId := Some ''re_1'',
                 isRefunded := True, updatedAt := 5\<rparr>) \<and>
       refund_route (snd r) ''bid-1'' =
         (Response 400 (Message ''Bid has already been refunded''), snd r)) \<and>
   (getBid (example_world [] None) ''bid-1'' = None \<and>
    refund_route (example_world [] None) ''bid-1'' =
      (Response 404 (Message ''Bid not found''), example_world [] None)) \<and>
   (let w = example_world [example_bid ''won'' (Some ''pi_1'') False] (Some example_client);
        b = example_bid ''won'' (Some ''pi_1'') False
    in getBid w ''bid-1'' = Some b \<and> status b \<noteq> ''outbid'' \<and> status b \<noteq> ''lost'' \<and>
       refund_route w ''bid-1'' =
         (Response 400 (Message ''Only outbid or lost bids can be refunded''), w)) \<and>
   (let w = example_world [example_bid ''outbid'' (Some ''pi_1'') True] (Some example_client);
        b = example_bid ''outbid'' (Some ''pi_1'') True
    in getBid w ''bid-1'' = Some b \<and> (status b = ''outbid'' \<or> status b = ''lost'') \<and>
       isRefunded b \<and>
       refund_route w ''bid-1'' = (Response 400 (Message ''Bid has already been refunded''), w)) \<and>
   (let w = example_world [example_bid ''lost'' None False] (Some example_client);
        b = example_bid ''lost'' None False
    in getBid w ''bid-1'' = Some b \<and> (status b = ''outbid'' \<or> status b = ''lost'') \<and>
       \<not> isRefunded b \<and> stripePaymentIntentId b = None \<and>
       refund_route w ''bid-1'' = (Response 500 (Message ''No payment found for this bid''), w))"
proof -
  let ?w = "example_world [example_bid ''lost'' (Some ''pi_1'') False] (Some example_client)"
  let ?b = "example_bid ''lost'' (Some ''pi_1'') False"
  have gw: "refunds_create example_client (stripeLog ?w) (RefundsCreate ''pi_1'' None) =
      Inr \<lparr>refund_id = ''re_1''\<rparr>"
    by (simp add: example_client_def)
  have ok: "statusCode (fst (refund_route ?w ''bid-1'')) = 200"
    using gw refund_route_guarded [where w = ?w and i = "''bid-1''" and b = ?b
        and pid = "''pi_1''" and c = example_client and rf = "\<lparr>refund_id = ''re_1''\<rparr>"]
    by (simp add: example_getBid example_fields example_world_fields Let_def)
  show ?thesis
    using gw ok
      refund_route_guarded [where w = ?w and i = "''bid-1''" and b = ?b
        and pid = "''pi_1''" and c = example_client and rf = "\<lparr>refund_id = ''re_1''\<rparr>"]
      refund_route_guarded [where w = "example_world [] None" and i = "''bid-1''"]
      refund_route_guarded [where i = "''bid-1''" and b = "example_bid ''won'' (Some ''pi_1'') False"
        and w = "example_world [example_bid ''won'' (Some ''pi_1'') False] (Some example_client)"]
      refund_route_guarded [where i = "''bid-1''" and b = "example_bid ''outbid'' (Some ''pi_1'') True"
        and w = "example_world [example_bid ''outbid'' (Some ''pi_1'') True] (Some example_client)"]
      refund_route_guarded [where i = "''bid-1''" and b = "example_bid ''lost'' None False"
        and w = "example_world [example_bid ''lost'' None False] (Some example_client)"]
    by (simp add: example_getBid example_getBid_none example_fields example_world_fields Let_def)
qed

section \<open>Payment intents\<close>

text \<open>
  Claim C7. Creating a payment intent for a bid is idempotent. When the bid stores an
  intent id (a string that is not empty), the handler only retrieves that intent: it
  sends no creation request, leaves every bid as it is, and answers with the client
  secret of the retrieved intent.
  Only when no id is stored does it create an intent, for the amount of the total paid
  of the bid in minor units, store the id of the intent on the bid and answer with its
  client secret; a second call then retrieves that intent and creates none.
\<close>

theorem payment_intent_created_once:
  "(getBid w i = Some b \<and> customerId b = u \<and> stripePaymentIntentId b = Some pid \<and> pid \<noteq> [] \<longrightarrow>
      (let r = create_payment_intent_route w u i
       in bids (snd r) = bids w \<and>
          stripeLog (snd r) =
            stripeLog w @ (if stripe w = None then [] else [PaymentIntentsRetrieve pid]))) \<and>
   (getBid w i = Some b \<and> customerId b = u \<and> stripePaymentIntentId b = Some pid \<and> pid \<noteq> [] \<and>
    stripe w = Some c \<and>
    paymentIntents_retrieve c (stripeLog w) (PaymentIntentsRetrieve pid) = Inr existing \<longrightarrow>
      fst (create_payment_intent_route w u i) =
        Response 200 (ClientSecret (client_secret existing))) \<and>
   (getBid w i = Some b \<and> customerId b = u \<and>
    (stripePaymentIntentId b = None \<or> stripePaymentIntentId b = Some []) \<and>
    stripe w = Some c \<and>
    paymentIntents_create c (stripeLog w)
      (PaymentIntentsCreate (totalPaid b) ''usd''
         [(''bidId'', bid_id b), (''customerId'', customerId b), (''lotNumber'', lotNumber b)]
         True) = Inr intent \<longrightarrow>
      (let r = create_payment_intent_route w u i
       in fst r = Response 200 (ClientSecret (client_secret intent)) \<and>
          stripeLog (snd r) = stripeLog w @
            [PaymentIntentsCreate (totalPaid b) ''usd''
               [(''bidId'', bid_id b), (''customerId'', customerId b),
                (''lotNumber'', lotNumber b)] True] \<and>
          getBid (snd r) i =
            Some (b\<lparr>stripePaymentIntentId := Some (pi_id intent), updatedAt := clock w\<rparr>) \<and>
          (pi_id intent \<noteq> [] \<longrightarrow>
             (let r2 = create_payment_intent_route (snd r) u i
              in bids (snd r2) = bids (snd r) \<and>
                 stripeLog (snd r2) = stripeLog (snd r) @ [PaymentIntentsRetrieve (pi_id intent)]))))"
proof -
  have existing_frame:
    "bids (snd (create_payment_intent_route w u i)) = bids w \<and>
     stripeLog (snd (create_payment_intent_route w u i)) =
       stripeLog w @ (if stripe w = None then [] else [PaymentIntentsRetrieve pid])"
    if "getBid w i = Some b" "customerId b = u" "stripePaymentIntentId b = Some pid" "pid \<noteq> []"
    for w b pid
    by (simp add: payment_intent_route_existing [OF that] getPaymentIntent_run
        split: option.splits)
  have existing_secret:
    "fst (create_payment_intent_route w u i) = Response 200 (ClientSecret (client_secret existing))"
    if "getBid w i = Some b" "customerId b = u" "stripePaymentIntentId b = Some pid" "pid \<noteq> []"
      "stripe w = Some c"
      "paymentIntents_retrieve c (stripeLog w) (PaymentIntentsRetrieve pid) = Inr existing"
    by (simp add: payment_intent_route_existing [OF that(1-4)] getPaymentIntent_run that(5,6))
  have created:
    "let r = create_payment_intent_route w u i
       in fst r = Response 200 (ClientSecret (client_secret intent)) \<and>
          stripeLog (snd r) = stripeLog w @
            [PaymentIntentsCreate (totalPaid b) ''usd''
               [(''bidId'', bid_id b), (''customerId'', customerId b),
                (''lotNumber'', lotNumber b)] True] \<and>
          getBid (snd r) i =
            Some (b\<lparr>stripePaymentIntentId := Some (pi_id intent), updatedAt := clock w\<rparr>) \<and>
          (pi_id intent \<noteq> [] \<longrightarrow>
             (let r2 = create_payment_intent_route (snd r) u i
              in bids (snd r2) = bids (snd r) \<and>
                 stripeLog (snd r2) = stripeLog (snd r) @ [PaymentIntentsRetrieve (pi_id intent)]))"
    if h: "getBid w i = Some b" "customerId b = u"
      "stripePaymentIntentId b = None \<or> stripePaymentIntentId b = Some []"
      "stripe w = Some c"
      "paymentIntents_create c (stripeLog w)
        (PaymentIntentsCreate (totalPaid b) ''usd''
           [(''bidId'', bid_id b), (''customerId'', customerId b), (''lotNumber'', lotNumber b)]
           True) = Inr intent"
  proof -
    let ?call = "PaymentIntentsCreate (totalPaid b) ''usd''
           [(''bidId'', bid_id b), (''customerId'', customerId b), (''lotNumber'', lotNumber b)]
           True"
    let ?w1 = "w\<lparr>stripeLog := stripeLog w @ [?call]\<rparr>"
    let ?w2 = "snd (updateBidPaymentInfo ?w1 i
             \<lparr>info_stripePaymentIntentId = Some (pi_id intent),
              info_stripeDepositRefundId = None,
              info_stripeFeeRefundId = None,
              info_isRefunded = None\<rparr>)"
    let ?b' = "b\<lparr>stripePaymentIntentId := Some (pi_id intent), updatedAt := clock w\<rparr>"
    have run: "create_payment_intent_route w u i =
        (Response 200 (ClientSecret (client_secret intent)), ?w2)"
      by (rule payment_intent_route_new [OF h])
    have g1: "getBid ?w1 i = Some b"
      using h(1) by (simp add: getBid_def)
    have g2: "getBid ?w2 i = Some ?b'"
      by (simp add: updateBidPaymentInfo_getBid g1 set_payment_info_intent)
    have log2: "stripeLog ?w2 = stripeLog w @ [?call]"
      by (simp add: updateBidPaymentInfo_frame)
    have st2: "stripe ?w2 = Some c"
      by (simp add: updateBidPaymentInfo_frame h(4))
    have second: "bids (snd (create_payment_intent_route ?w2 u i)) = bids ?w2 \<and>
        stripeLog (snd (create_payment_intent_route ?w2 u i)) =
          stripeLog ?w2 @ [PaymentIntentsRetrieve (pi_id intent)]"
      if "pi_id intent \<noteq> []"
      using existing_frame [of ?w2 ?b' "pi_id intent"] g2 h(2) that st2 by simp
    show ?thesis
      unfolding Let_def run fst_conv snd_conv
      using g2 log2 second by (simp add: run)
  qed
  show ?thesis
    using existing_frame [of w b pid] existing_secret created
    unfolding Let_def by blast
qed

theorem payment_intent_created_once_witness:
  "(let w = example_world [example_bid ''approved'' (Some ''pi_1'') False] (Some example_client);
        b = example_bid ''approved'' (Some ''pi_1'') False;
        r = create_payment_intent_route w ''cust-1'' ''bid-1''
    in getBid w ''bid-1'' = Some b \<and> customerId b = ''cust-1'' \<and>
       stripePaymentIntentId b = Some ''pi_1'' \<and> ''pi_1'' \<noteq> [] \<and>
       stripe w = Some example_client \<and>
       paymentIntents_retrieve example_client (stripeLog w) (PaymentIntentsRetrieve ''pi_1'') =
         Inr \<lparr>pi_id = ''pi_1'', client_secret = Some ''secret_1''\<rparr> \<and>
       bids (snd r) = bids w \<and>
       stripeLog (snd r) = [PaymentIntentsRetrieve ''pi_1''] \<and>
       fst r = Response 200 (ClientSecret (Some ''secret_1''))) \<and>
   (let w = example_world [example_bid ''pending'' None False] (Some example_client);
        b = example_bid ''pending'' None False;
        call = PaymentIntentsCreate 31500 ''usd''
                 [(''bidId'', ''bid-1''), (''customerId'', ''cust-1''), (''lotNumber'', ''LOT-1'')]
                 True;
        r = create_payment_intent_route w ''cust-1'' ''bid-1'';
        r2 = create_payment_intent_route (snd r) ''cust-1'' ''bid-1''
    in getBid w ''bid-1'' = Some b \<and> customerId b = ''cust-1'' \<and>
       stripePaymentIntentId b = None \<and> stripe w = Some example_client \<and>
       paymentIntents_create example_client (stripeLog w) call =
         Inr \<lparr>pi_id = ''pi_1'', client_secret = Some ''secret_1''\<rparr> \<and>
       fst r = Response 200 (ClientSecret (Some ''secret_1'')) \<and>
       stripeLog (snd r) = [call] \<and>
       getBid (snd r) ''bid-1'' = Some (b\<lparr>stripePaymentIntentId := Some ''pi_1'', updatedAt := 5\<rparr>) \<and>
       bids (snd r2) = bids (snd r) \<and>
       stripeLog (snd r2) = [call, PaymentIntentsRetrieve ''pi_1''])"
proof -
  let ?w1 = "example_world [example_bid ''approved'' (Some ''pi_1'') False] (Some example_client)"
  let ?w2 = "example_world [example_bid ''pending'' None False] (Some example_client)"
  let ?intent = "\<lparr>pi_id = ''pi_1'', client_secret = Some ''secret_1''\<rparr>"
  have gw: "paymentIntents_retrieve example_client l k = Inr ?intent"
    "paymentIntents_create example_client l k = Inr ?intent" for l k
    by (simp_all add: example_client_def)
  show ?thesis
    using
      payment_intent_created_once [where w = ?w1 and i = "''bid-1''" and u = "''cust-1''"
        and b = "example_bid ''approved'' (Some ''pi_1'') False" and pid = "''pi_1''"
        and c = example_client and existing = ?intent]
      payment_intent_created_once [where w = ?w2 and i = "''bid-1''" and u = "''cust-1''"
        and b = "example_bid ''pending'' None False" and c = example_client and intent = ?intent]
    by (simp add: gw example_getBid example_fields example_bid_columns example_world_fields Let_def)
qed

section \<open>Deleting a bid\<close>

text \<open>
  Claim C8. Delete succeeds only on a bid whose status is \<open>won\<close> or \<open>lost\<close>; any
  other status is answered 400, ``Only won or lost bids can be deleted'', and an unknown
  bid 404. After a successful delete the bid is not found by id and the history query
  for it is empty: no history row of the bid is left.
\<close>

theorem delete_route_only_finished:
  "(getBid w i = None \<longrightarrow>
      delete_route w i = (Response 404 (Message ''Bid not found''), w)) \<and>
   (getBid w i = Some b \<and> status b \<noteq> ''won'' \<and> status b \<noteq> ''lost'' \<longrightarrow>
      delete_route w i = (Response 400 (Message ''Only won or lost bids can be deleted''), w)) \<and>
   (getBid w i = Some b \<and> (status b = ''won'' \<or> status b = ''lost'') \<longrightarrow>
      (let r = delete_route w i
       in fst r = Response 200 (Message ''Bid deleted successfully'') \<and>
          getBid (snd r) i = None \<and>
          getBidHistory (snd r) i = [] \<and>
          filter (\<lambda>h. bidId h = i) (bidHistory (snd r)) = []))"
proof (intro conjI impI)
  assume "getBid w i = None"
  then show "delete_route w i = (Response 404 (Message ''Bid not found''), w)"
    by (simp add: delete_route_def)
next
  assume "getBid w i = Some b \<and> status b \<noteq> ''won'' \<and> status b \<noteq> ''lost''"
  then show "delete_route w i =
      (Response 400 (Message ''Only won or lost bids can be deleted''), w)"
    by (simp add: delete_route_def)
next
  assume a: "getBid w i = Some b \<and> (status b = ''won'' \<or> status b = ''lost'')"
  then have run: "delete_route w i =
      (Response 200 (Message ''Bid deleted successfully''), deleteBid w i)"
    by (auto simp: delete_route_def)
  show "let r = delete_route w i
       in fst r = Response 200 (Message ''Bid deleted successfully'') \<and>
          getBid (snd r) i = None \<and>
          getBidHistory (snd r) i = [] \<and>
          filter (\<lambda>h. bidId h = i) (bidHistory (snd r)) = []"
    unfolding Let_def run fst_conv snd_conv
    by (simp add: deleteBid_getBid deleteBid_getBidHistory deleteBid_history)
qed

theorem delete_route_only_finished_witness:
  "(getBid (example_world [] None) ''bid-1'' = None \<and>
    delete_route (example_world [] None) ''bid-1'' =
      (Response 404 (Message ''Bid not found''), example_world [] None)) \<and>
   (let w = example_world [example_bid ''winning'' None False] None;
        b = example_bid ''winning'' None False
    in getBid w ''bid-1'' = Some b \<and> status b \<noteq> ''won'' \<and> status b \<noteq> ''lost'' \<and>
       delete_route w ''bid-1'' =
         (Response 400 (Message ''Only won or lost bids can be deleted''), w)) \<and>
   (let w = snd (updateBidStatus (example_world [example_bid ''winning'' None False] None)
                   ''bid-1'' ''lost'' ''emp-1'' None);
        b = (example_bid ''winning'' None False)\<lparr>status := ''lost'', updatedAt := 5\<rparr>;
        r = delete_route w ''bid-1''
    in getBid w ''bid-1'' = Some b \<and> (status b = ''won'' \<or> status b = ''lost'') \<and>
       length (getBidHistory w ''bid-1'') = 1 \<and>
       fst r = Response 200 (Message ''Bid deleted successfully'') \<and>
       getBid (snd r) ''bid-1'' = None \<and>
       getBidHistory (snd r) ''bid-1'' = [] \<and>
       filter (\<lambda>h. bidId h = ''bid-1'') (bidHistory (snd r)) = [])"
proof -
  let ?init = "example_world [example_bid ''winning'' None False] None"
  let ?w = "snd (updateBidStatus ?init ''bid-1'' ''lost'' ''emp-1'' None)"
  let ?b = "(example_bid ''winning'' None False)\<lparr>status := ''lost'', updatedAt := 5\<rparr>"
  have g: "getBid ?w ''bid-1'' = Some ?b"
    by (simp add: updateBidStatus_found(2) [OF example_getBid] or_else_def example_fields
        example_world_fields)
  have h: "length (getBidHistory ?w ''bid-1'') = 1"
    by (simp add: getBidHistory_def updateBidStatus_found(3) [OF example_getBid]
        example_world_fields)
  have none: "delete_route (example_world [] None) ''bid-1'' =
      (Response 404 (Message ''Bid not found''), example_world [] None)"
    using delete_route_only_finished [where w = "example_world [] None" and i = "''bid-1''"]
    by (simp add: example_getBid_none)
  have early: "delete_route ?init ''bid-1'' =
      (Response 400 (Message ''Only won or lost bids can be deleted''), ?init)"
    using delete_route_only_finished [where w = ?init and i = "''bid-1''"
        and b = "example_bid ''winning'' None False"]
    by (simp add: example_getBid example_fields)
  have finished: "fst (delete_route ?w ''bid-1'') = Response 200 (Message ''Bid deleted successfully'') \<and>
       getBid (snd (delete_route ?w ''bid-1'')) ''bid-1'' = None \<and>
       getBidHistory (snd (delete_route ?w ''bid-1'')) ''bid-1'' = [] \<and>
       filter (\<lambda>h. bidId h = ''bid-1'') (bidHistory (snd (delete_route ?w ''bid-1''))) = []"
    using g delete_route_only_finished [where w = ?w and i = "''bid-1''" and b = ?b]
    by (simp add: Let_def)
  show ?thesis
    unfolding Let_def
    using g h none early finished
    by (simp add: example_getBid example_getBid_none example_fields)
qed

end
